theory Spec2Isabelle
  imports Complex_Main "HOL-Library.Char_ord" "HOL-Library.List_Lexorder"
begin

section \<open>Python values, exceptions and containers\<close>

text \<open>
  The dataset class of
  \<^verbatim>\<open>opencood/data_utils/datasets/intermediate_fusion_dataset_opv2v_delay_multisweep.py\<close>
  works on nested \<^verbatim>\<open>OrderedDict\<close>s whose keys are looked up at run time. The
  embedding keeps that: a value is a \<open>pyval\<close>, a subscript is a function into
  \<open>py_error + pyval\<close>, and every exception the source can raise is a branch.
  Numbers read from yaml files and numpy arrays are of an abstract type \<open>'n\<close>; the
  arithmetic on them is a parameter of the functions that compute with them. A numpy
  array or torch tensor is a \<open>PyArray\<close> of its elements along the first axis, so a
  two-dimensional array is a \<open>PyArray\<close> of rows; a Python list is a \<open>PyList\<close>.
\<close>

datatype py_error =
    IndexError | KeyError | TypeError | AssertionError | NameError
  | ValueError | AttributeError | RuntimeError | OSError | OverflowError

datatype pykey = KStr string | KInt int

datatype 'n pyval =
    PyNone
  | PyBool bool
  | PyInt int
  | PyNum 'n
  | PyStr string
  | PyList "'n pyval list"
  | PyArray "'n pyval list"
  | PyDict "(pykey \<times> 'n pyval) list"

text \<open>Sequencing of fallible steps: the first exception ends the computation.\<close>

definition ebind :: "'e + 'a \<Rightarrow> ('a \<Rightarrow> 'e + 'b) \<Rightarrow> 'e + 'b" where
  "ebind m f = (case m of Inl e \<Rightarrow> Inl e | Inr x \<Rightarrow> f x)"

text \<open>\<^verbatim>\<open>xs[i]\<close> on a Python list: a negative index counts from the end.\<close>

definition py_index :: "'a list \<Rightarrow> int \<Rightarrow> py_error + 'a" where
  "py_index xs i =
     (if 0 \<le> i \<and> i < int (length xs) then Inr (xs ! nat i)
      else if i < 0 \<and> - int (length xs) \<le> i then Inr (xs ! nat (int (length xs) + i))
      else Inl IndexError)"

text \<open>\<^verbatim>\<open>d[k]\<close> and \<^verbatim>\<open>d[k] = v\<close> on an ordered dictionary, kept as an association list
  in insertion order: a new key goes last, an old key keeps its place.\<close>

fun dict_get :: "(pykey \<times> 'v) list \<Rightarrow> pykey \<Rightarrow> py_error + 'v" where
  "dict_get [] k = Inl KeyError"
| "dict_get ((k', v) # d) k = (if k' = k then Inr v else dict_get d k)"

fun dict_set :: "(pykey \<times> 'v) list \<Rightarrow> pykey \<Rightarrow> 'v \<Rightarrow> (pykey \<times> 'v) list" where
  "dict_set [] k v = [(k, v)]"
| "dict_set ((k', v') # d) k v =
     (if k' = k then (k, v) # d else (k', v') # dict_set d k v)"

fun dict_pop :: "(pykey \<times> 'v) list \<Rightarrow> pykey \<Rightarrow> py_error + (pykey \<times> 'v) list" where
  "dict_pop [] k = Inl KeyError"
| "dict_pop ((k', v) # d) k =
     (if k' = k then Inr d else ebind (dict_pop d k) (\<lambda>d'. Inr ((k', v) # d')))"

text \<open>\<^verbatim>\<open>v[k]\<close> on any value: dictionaries by key, lists by integer position; a
  boolean, a number or \<^verbatim>\<open>None\<close> is not subscriptable.\<close>

fun subscript :: "'n pyval \<Rightarrow> pykey \<Rightarrow> py_error + 'n pyval" where
  "subscript (PyDict d) k = dict_get d k"
| "subscript (PyList xs) (KInt i) = py_index xs i"
| "subscript (PyList xs) (KStr s) = Inl TypeError"
| "subscript (PyArray xs) (KInt i) = py_index xs i"
| "subscript (PyArray xs) (KStr s) = Inl IndexError"
| "subscript (PyStr s) (KInt i) = ebind (py_index s i) (\<lambda>c. Inr (PyStr [c]))"
| "subscript (PyStr s) (KStr t) = Inl TypeError"
| "subscript PyNone k = Inl TypeError"
| "subscript (PyBool b) k = Inl TypeError"
| "subscript (PyInt i) k = Inl TypeError"
| "subscript (PyNum x) k = Inl TypeError"

text \<open>\<^verbatim>\<open>list(d.items())\<close>; only a dictionary has the method.\<close>

fun items :: "'n pyval \<Rightarrow> py_error + (pykey \<times> 'n pyval) list" where
  "items (PyDict d) = Inr d"
| "items v = Inl AttributeError"

text \<open>Truth value of a Python object, as \<^verbatim>\<open>if v:\<close> tests it; numpy refuses to give
  one for an array of several elements.\<close>

fun truthy :: "'n pyval \<Rightarrow> py_error + bool" where
  "truthy PyNone = Inr False"
| "truthy (PyBool b) = Inr b"
| "truthy (PyInt i) = Inr (i \<noteq> 0)"
| "truthy (PyNum x) = Inr True"
| "truthy (PyStr s) = Inr (s \<noteq> [])"
| "truthy (PyList xs) = Inr (xs \<noteq> [])"
| "truthy (PyArray []) = Inr False"
| "truthy (PyArray [x]) = truthy x"
| "truthy (PyArray (x # y # xs)) = Inl ValueError"
| "truthy (PyDict d) = Inr (d \<noteq> [])"

text \<open>\<^verbatim>\<open>len(v)\<close> and the elements that iterating over \<open>v\<close> gives.\<close>

fun py_len :: "'n pyval \<Rightarrow> py_error + int" where
  "py_len (PyList xs) = Inr (int (length xs))"
| "py_len (PyArray xs) = Inr (int (length xs))"
| "py_len (PyDict d) = Inr (int (length d))"
| "py_len (PyStr s) = Inr (int (length s))"
| "py_len v = Inl TypeError"

fun key_value :: "pykey \<Rightarrow> 'n pyval" where
  "key_value (KStr s) = PyStr s"
| "key_value (KInt i) = PyInt i"

fun py_iter :: "'n pyval \<Rightarrow> py_error + 'n pyval list" where
  "py_iter (PyList xs) = Inr xs"
| "py_iter (PyArray xs) = Inr xs"
| "py_iter (PyDict d) = Inr (map (key_value \<circ> fst) d)"
| "py_iter (PyStr s) = Inr (map (\<lambda>c. PyStr [c]) s)"
| "py_iter v = Inl TypeError"

text \<open>\<^verbatim>\<open>range(k)\<close> for an integer \<open>k\<close>: empty when \<open>k \<le> 0\<close>.\<close>

definition py_range :: "int \<Rightarrow> int list" where
  "py_range k = map int [0 ..< nat k]"

section \<open>Index construction: \<^verbatim>\<open>__init__\<close>\<close>

text \<open>
  The configuration dictionary \<^verbatim>\<open>params\<close>, with the options this class reads. An
  option that the source tests with \<^verbatim>\<open>in\<close> is an \<open>option\<close> field; \<open>max_cav_opt\<close> is
  \<^verbatim>\<open>params['train_params']['max_cav']\<close> when both keys are there, and \<open>proj_first_opt\<close>
  is \<^verbatim>\<open>params['fusion']['args']['proj_first']\<close>.
\<close>

record 'n hypes =
  num_sweep_frames :: "int option"
  time_delay :: "int option"
  proj_first_opt :: "bool option"
  root_dir :: string
  validate_dir :: string
  max_cav_opt :: "int option"
  comm_range :: 'n
  max_num :: int
  cav_lidar_range :: "'n pyval"
  core_method :: string

text \<open>The directory tree as \<^verbatim>\<open>os.listdir\<close> and \<^verbatim>\<open>os.path.isdir\<close> show it.\<close>

record filesystem =
  listdir :: "string \<Rightarrow> string list"
  isdir :: "string \<Rightarrow> bool"

text \<open>The attributes of the dataset object that the methods below read. \<open>kd_flag\<close> is
  read by \<^verbatim>\<open>collate_batch_train\<close> and set nowhere in this class; it is given from
  outside.\<close>

record 'n dataset =
  params :: "'n hypes"
  visualize :: bool
  train :: bool
  kd_flag :: bool
  self_k :: int
  self_tau :: int
  proj_first :: bool
  self_max_cav :: int
  scenario_database :: "(pykey \<times> 'n pyval) list"
  len_record :: "int list"

definition path_join :: "string \<Rightarrow> string \<Rightarrow> string" where
  "path_join a b =
     (if b \<noteq> [] \<and> hd b = CHR ''/'' then b
      else if a = [] \<or> last a = CHR ''/'' then a @ b
      else a @ ''/'' @ b)"

definition endswith :: "string \<Rightarrow> string \<Rightarrow> bool" where
  "endswith x suf = (length suf \<le> length x \<and> drop (length x - length suf) x = suf)"

definition subdirs :: "filesystem \<Rightarrow> string \<Rightarrow> string list" where
  "subdirs fs d = sort [x. x \<leftarrow> listdir fs d, isdir fs (path_join d x)]"

definition scenario_folders :: "filesystem \<Rightarrow> string \<Rightarrow> string list" where
  "scenario_folders fs rdir =
     sort [path_join rdir x. x \<leftarrow> listdir fs rdir, isdir fs (path_join rdir x)]"

text \<open>The record of one frame: \<^verbatim>\<open>{'yaml': ..., 'lidar': ...}\<close>.\<close>

definition frame_entry :: "string \<Rightarrow> string \<Rightarrow> 'n pyval" where
  "frame_entry cav_path timestamp =
     PyDict [(KStr ''yaml'', PyStr (path_join cav_path (timestamp @ ''.yaml''))),
             (KStr ''lidar'', PyStr (path_join cav_path (timestamp @ ''.pcd'')))]"

text \<open>
  One agent's dictionary: the key \<^verbatim>\<open>'ego'\<close> is stored first (lines 134-145), the
  timestamps after it (lines 147-160).
\<close>

definition cav_content_of :: "bool \<Rightarrow> string \<Rightarrow> string list \<Rightarrow> (pykey \<times> 'n pyval) list" where
  "cav_content_of ego cav_path timestamps =
     foldl (\<lambda>c t. dict_set c (KStr t) (frame_entry cav_path t))
       [(KStr ''ego'', PyBool ego)] timestamps"

text \<open>Lines 137-142: the cumulative count of ego samples.\<close>

definition append_len_record :: "int list \<Rightarrow> int \<Rightarrow> int list" where
  "append_len_record lr num_ego_timestamps =
     (if lr = [] then lr @ [num_ego_timestamps]
      else lr @ [last lr + num_ego_timestamps])"

text \<open>
  The loop over the agents of one scenario (lines 115-160), \<open>j\<close> the position from
  \<^verbatim>\<open>enumerate\<close>. \<open>extract_timestamps\<close> is a method of the base class, taken as a
  parameter. The agent's dictionary is filled before it is stored; the source stores it
  empty and fills it in place, which no later step of the loop can tell apart.
\<close>

fun cav_loop ::
  "filesystem \<Rightarrow> (string list \<Rightarrow> string list) \<Rightarrow> int \<Rightarrow> int \<Rightarrow> int \<Rightarrow> string \<Rightarrow>
   int \<Rightarrow> string list \<Rightarrow> (pykey \<times> 'n pyval) list \<times> int list \<Rightarrow>
   (pykey \<times> 'n pyval) list \<times> int list" where
  "cav_loop fs extract_timestamps tau k max_cav scenario_folder j [] acc = acc"
| "cav_loop fs extract_timestamps tau k max_cav scenario_folder j (cav_id # rest) (scn, lr) =
     (if j > max_cav - 1 then (scn, lr)
      else
        let cav_path = path_join scenario_folder cav_id;
            yaml_files = sort [path_join cav_path x. x \<leftarrow> listdir fs cav_path,
                                 endswith x ''.yaml''];
            timestamps = extract_timestamps yaml_files;
            lr' = (if j = 0
                   then append_len_record lr (int (length timestamps) - (tau + k - 1))
                   else lr);
            content = cav_content_of (j = 0) cav_path timestamps
        in cav_loop fs extract_timestamps tau k max_cav scenario_folder (j + 1) rest
             (dict_set scn (KStr cav_id) (PyDict content), lr'))"

text \<open>The loop over the scenarios (lines 105-160), with the assertion of line 112.\<close>

fun scenario_loop ::
  "filesystem \<Rightarrow> (string list \<Rightarrow> string list) \<Rightarrow> int \<Rightarrow> int \<Rightarrow> int \<Rightarrow>
   int \<Rightarrow> string list \<Rightarrow> (pykey \<times> 'n pyval) list \<times> int list \<Rightarrow>
   py_error + (pykey \<times> 'n pyval) list \<times> int list" where
  "scenario_loop fs extract_timestamps tau k max_cav i [] acc = Inr acc"
| "scenario_loop fs extract_timestamps tau k max_cav i (scenario_folder # rest) (db, lr) =
     (let cav_list = subdirs fs scenario_folder
      in if \<not> length cav_list > 0 then Inl AssertionError
         else
           let (scn, lr') =
                 cav_loop fs extract_timestamps tau k max_cav scenario_folder 0 cav_list ([], lr)
           in scenario_loop fs extract_timestamps tau k max_cav (i + 1) rest
                (dict_set db (KInt i) (PyDict scn), lr'))"

text \<open>
  \<^verbatim>\<open>__init__\<close> (lines 38-178). The data augmentor and the pre- and post-processor it
  builds are external and hold no state that the properties below speak of. The closing \<^verbatim>\<open>print\<close>
  reads \<^verbatim>\<open>self.len_record[-1]\<close>, which raises on an empty table.
\<close>

definition init ::
  "filesystem \<Rightarrow> (string list \<Rightarrow> string list) \<Rightarrow> bool \<Rightarrow> 'n hypes \<Rightarrow> bool \<Rightarrow> bool \<Rightarrow>
   py_error + 'n dataset" where
  "init fs extract_timestamps kd p vis trn =
     (let k = (case num_sweep_frames p of Some v \<Rightarrow> v | None \<Rightarrow> 0);
          tau = (case time_delay p of Some v \<Rightarrow> v | None \<Rightarrow> 0)
      in case proj_first_opt p of
           None \<Rightarrow> Inl AssertionError
         | Some pf \<Rightarrow>
             let rdir = (if trn then root_dir p else validate_dir p);
                 max_cav = (case max_cav_opt p of None \<Rightarrow> 5 | Some m \<Rightarrow> m)
             in if \<not> isdir fs rdir then Inl OSError
                else
                  ebind (scenario_loop fs extract_timestamps tau k max_cav 0
                           (scenario_folders fs rdir) ([], []))
                    (\<lambda>(db, lr).
                       ebind (py_index lr (- 1))
                         (\<lambda>total.
                            Inr \<lparr> params = p, visualize = vis, train = trn, kd_flag = kd,
                                  self_k = k, self_tau = tau, proj_first = pf,
                                  self_max_cav = max_cav, scenario_database = db,
                                  len_record = lr \<rparr>)))"

section \<open>Frame selection: \<^verbatim>\<open>retrieve_base_data\<close>\<close>

text \<open>The two file loaders, external to this class.\<close>

record 'n loaders =
  load_yaml :: "'n pyval \<Rightarrow> py_error + 'n pyval"
  pcd_to_np :: "'n pyval \<Rightarrow> py_error + 'n pyval"

text \<open>
  Lines 236-240: the scan of the cumulative-length table. The result is
  \<^verbatim>\<open>scenario_index\<close> and the value the loop variable \<^verbatim>\<open>i\<close> is left with
  (\<open>None\<close> when the table is empty and \<^verbatim>\<open>i\<close> was never bound): the code below
  the loop reads both.
\<close>

fun enumerate_scan :: "int \<Rightarrow> int \<Rightarrow> int list \<Rightarrow> int option \<Rightarrow> int \<times> int option" where
  "enumerate_scan idx p [] i = (0, i)"
| "enumerate_scan idx p (ele # rest) i =
     (if idx < ele then (p, Some p) else enumerate_scan idx (p + 1) rest (Some p))"

text \<open>Lines 264-265 and 283-284, applied to \<^verbatim>\<open>idx + i\<close>.\<close>

definition intra_offset :: "int list \<Rightarrow> int \<Rightarrow> int \<Rightarrow> py_error + int" where
  "intra_offset lr scenario_index x =
     (if scenario_index = 0 then Inr x
      else ebind (py_index lr (scenario_index - 1)) (\<lambda>prev. Inr (x - prev)))"

text \<open>Line 266 and line 285.\<close>

definition curr_timestamp_index :: "int \<Rightarrow> int \<Rightarrow> int \<Rightarrow> int" where
  "curr_timestamp_index timestamp_index tau k = timestamp_index + tau + k - 1"

definition past_timestamp_index :: "int \<Rightarrow> int \<Rightarrow> int \<Rightarrow> int \<Rightarrow> int" where
  "past_timestamp_index timestamp_index k i temp = timestamp_index + k - 1 - i + temp"

text \<open>
  Lines 267-273 and 286-293: the key at a position of \<^verbatim>\<open>list(cav_content.items())\<close>,
  and the record loaded from the entry under that key.
\<close>

definition load_frame :: "'n loaders \<Rightarrow> 'n pyval \<Rightarrow> int \<Rightarrow> py_error + 'n pyval" where
  "load_frame io cav_content timestamp_index =
     ebind (items cav_content) (\<lambda>its.
     ebind (py_index its timestamp_index) (\<lambda>item.
     let timestamp_key = fst item in
     ebind (subscript cav_content timestamp_key) (\<lambda>entry.
     ebind (subscript entry (KStr ''yaml'')) (\<lambda>yaml_path.
     ebind (load_yaml io yaml_path) (\<lambda>yaml.
     ebind (subscript cav_content timestamp_key) (\<lambda>entry'.
     ebind (subscript entry' (KStr ''lidar'')) (\<lambda>lidar_path.
     ebind (pcd_to_np io lidar_path) (\<lambda>lidar.
     Inr (PyDict [(KStr ''params'', yaml), (KStr ''lidar_np'', lidar),
                  (KStr ''timestamp'', key_value timestamp_key)])))))))))"

text \<open>
  The loop over the past frames (lines 280-293). It reuses the name \<^verbatim>\<open>i\<close>, so the
  state carries the value \<^verbatim>\<open>i\<close> has after the loop. Beside the dictionary
  \<^verbatim>\<open>past_k\<close> the model returns the list of the positions \<^verbatim>\<open>timestamp_index\<close> it
  looked up, which the source computes and does not keep.
\<close>

fun past_loop ::
  "'n loaders \<Rightarrow> int list \<Rightarrow> int \<Rightarrow> int \<Rightarrow> int \<Rightarrow> int \<Rightarrow> 'n pyval \<Rightarrow> int list \<Rightarrow>
   int option \<times> (pykey \<times> 'n pyval) list \<times> int list \<Rightarrow>
   py_error + int option \<times> (pykey \<times> 'n pyval) list \<times> int list" where
  "past_loop io lr scenario_index idx k temp cav_content [] acc = Inr acc"
| "past_loop io lr scenario_index idx k temp cav_content (i # rest) (iv, past_k, tr) =
     ebind (intra_offset lr scenario_index (idx + i)) (\<lambda>timestamp_index.
     let timestamp_index = past_timestamp_index timestamp_index k i temp in
     ebind (load_frame io cav_content timestamp_index) (\<lambda>frame.
     past_loop io lr scenario_index idx k temp cav_content rest
       (Some i, dict_set past_k (KInt i) frame, tr @ [timestamp_index])))"

text \<open>
  The body of the loop over the agents (lines 258-293) for one agent. \<open>iv\<close> is the
  value of \<^verbatim>\<open>i\<close> on entry: what the scan left for the first agent, what the
  previous agent's past-frame loop left for the others.
\<close>

definition retrieve_cav ::
  "'n loaders \<Rightarrow> int list \<Rightarrow> int \<Rightarrow> int \<Rightarrow> int \<Rightarrow> int \<Rightarrow> 'n pyval \<Rightarrow> int option \<Rightarrow>
   py_error + int option \<times> 'n pyval \<times> bool \<times> int \<times> int list" where
  "retrieve_cav io lr scenario_index idx tau k cav_content iv =
     ebind (subscript cav_content (KStr ''ego'')) (\<lambda>ego.
     case iv of
       None \<Rightarrow> Inl NameError
     | Some i \<Rightarrow>
         ebind (intra_offset lr scenario_index (idx + i)) (\<lambda>timestamp_index.
         let timestamp_index = curr_timestamp_index timestamp_index tau k in
         ebind (load_frame io cav_content timestamp_index) (\<lambda>curr.
         ebind (truthy ego) (\<lambda>is_ego.
         let temp = (if is_ego then tau else 0) in
         ebind (past_loop io lr scenario_index idx k temp cav_content (py_range k)
                  (iv, [], [])) (\<lambda>(iv', past_k, past_tr).
         Inr (iv',
              PyDict [(KStr ''ego'', ego), (KStr ''past_k'', PyDict past_k),
                      (KStr ''curr'', curr)],
              is_ego, timestamp_index, past_tr))))))"

fun retrieve_loop ::
  "'n loaders \<Rightarrow> int list \<Rightarrow> int \<Rightarrow> int \<Rightarrow> int \<Rightarrow> int \<Rightarrow> (pykey \<times> 'n pyval) list \<Rightarrow>
   int option \<times> (pykey \<times> 'n pyval) list \<times> (pykey \<times> bool \<times> int \<times> int list) list \<Rightarrow>
   py_error + (pykey \<times> 'n pyval) list \<times> (pykey \<times> bool \<times> int \<times> int list) list" where
  "retrieve_loop io lr scenario_index idx tau k [] (iv, data, tr) = Inr (data, tr)"
| "retrieve_loop io lr scenario_index idx tau k ((cav_id, cav_content) # rest) (iv, data, tr) =
     ebind (retrieve_cav io lr scenario_index idx tau k cav_content iv)
       (\<lambda>(iv', d, is_ego, curr_ix, past_ixs).
          retrieve_loop io lr scenario_index idx tau k rest
            (iv', dict_set data cav_id d, tr @ [(cav_id, is_ego, curr_ix, past_ixs)]))"

text \<open>
  \<^verbatim>\<open>retrieve_base_data\<close> (lines 180-295) with the positions it computed: per agent, in
  the order of the scenario dictionary, the agent's id, the truth value of its
  \<^verbatim>\<open>'ego'\<close> entry as line 276 tests it, the position of its current frame and the
  positions of its past frames.
\<close>

definition retrieve_base_data_trace ::
  "'n dataset \<Rightarrow> 'n loaders \<Rightarrow> int \<Rightarrow>
   py_error + (pykey \<times> 'n pyval) list \<times> (pykey \<times> bool \<times> int \<times> int list) list" where
  "retrieve_base_data_trace st io idx =
     (let (scenario_index, iv) = enumerate_scan idx 0 (len_record st) None in
      ebind (dict_get (scenario_database st) (KInt scenario_index)) (\<lambda>scn.
      ebind (items scn) (\<lambda>its.
      retrieve_loop io (len_record st) scenario_index idx (self_tau st) (self_k st) its
        (iv, [], []))))"

definition retrieve_base_data ::
  "'n dataset \<Rightarrow> 'n loaders \<Rightarrow> int \<Rightarrow> py_error + (pykey \<times> 'n pyval) list" where
  "retrieve_base_data st io idx =
     ebind (retrieve_base_data_trace st io idx) (\<lambda>(data, tr). Inr data)"

definition resolved_positions ::
  "'n dataset \<Rightarrow> 'n loaders \<Rightarrow> int \<Rightarrow> py_error + (pykey \<times> bool \<times> int \<times> int list) list" where
  "resolved_positions st io idx =
     ebind (retrieve_base_data_trace st io idx) (\<lambda>(data, tr). Inr tr)"

text \<open>
  The arithmetic as the specification words it, for comparison with the above:
  the ego's current frame at \<open>offset + \<tau> + k - 1\<close> and its past frame \<open>i\<close> at
  \<open>offset + (k - 1 - i)\<close>; for another agent no added \<open>\<tau>\<close> on the current frame, and
  past frame \<open>i\<close> at \<open>offset + (k - 1 - i) + \<tau>\<close>.
\<close>

definition spec_curr_position :: "int \<Rightarrow> int \<Rightarrow> int \<Rightarrow> bool \<Rightarrow> int" where
  "spec_curr_position offset tau k ego =
     (if ego then offset + tau + k - 1 else offset + k - 1)"

definition spec_past_position :: "int \<Rightarrow> int \<Rightarrow> int \<Rightarrow> bool \<Rightarrow> int \<Rightarrow> int" where
  "spec_past_position offset tau k ego i =
     (if ego then offset + (k - 1 - i) else offset + (k - 1 - i) + tau)"

section \<open>Sample assembly: \<^verbatim>\<open>__getitem__\<close> and its helpers\<close>

text \<open>
  Arithmetic on the numbers of poses and arrays (Python floats): subtraction, addition,
  \<^verbatim>\<open>** 2\<close>, \<^verbatim>\<open>math.sqrt\<close>, \<^verbatim>\<open>>\<close>, the constants \<^verbatim>\<open>0.0\<close> and \<^verbatim>\<open>1.0\<close>, and the
  truncation of a float to an integer. All of it is a parameter, so nothing proved below
  depends on how floating-point arithmetic rounds.
\<close>

record 'n arith =
  fsub :: "'n \<Rightarrow> 'n \<Rightarrow> 'n"
  fadd :: "'n \<Rightarrow> 'n \<Rightarrow> 'n"
  fsquare :: "'n \<Rightarrow> 'n"
  fsqrt :: "'n \<Rightarrow> 'n"
  fgt :: "'n \<Rightarrow> 'n \<Rightarrow> bool"
  fzero :: 'n
  fone :: 'n
  ftrunc :: "'n \<Rightarrow> int"

text \<open>
  The collaborators outside this class: the geometry helpers of
  \<^verbatim>\<open>transformation_utils\<close>, \<^verbatim>\<open>pcd_utils\<close> and \<^verbatim>\<open>box_utils\<close>, \<^verbatim>\<open>np.linalg.solve\<close>,
  the pre- and post-processor, \<^verbatim>\<open>generate_object_center\<close> of the base class, and two
  facts of the runtime: the order in which a \<^verbatim>\<open>set\<close> is iterated (\<open>set_order\<close>) and
  \<^verbatim>\<open>np.array(...).reshape(-1, 6)\<close> (\<open>reshape_poses\<close>).
\<close>

record 'n externals =
  x1_to_x2 :: "'n pyval \<Rightarrow> 'n pyval \<Rightarrow> py_error + 'n pyval"
  x_to_world :: "'n pyval \<Rightarrow> py_error + 'n pyval"
  linalg_solve :: "'n pyval \<Rightarrow> 'n pyval \<Rightarrow> py_error + 'n pyval"
  shuffle_points :: "'n pyval \<Rightarrow> py_error + 'n pyval"
  mask_ego_points :: "'n pyval \<Rightarrow> py_error + 'n pyval"
  project_points_by_matrix_torch :: "'n pyval \<Rightarrow> 'n pyval \<Rightarrow> py_error + 'n pyval"
  mask_points_by_range :: "'n pyval \<Rightarrow> 'n pyval \<Rightarrow> py_error + 'n pyval"
  preprocess :: "'n pyval \<Rightarrow> py_error + 'n pyval"
  generate_object_center ::
    "'n pyval \<Rightarrow> 'n pyval \<Rightarrow> py_error + 'n pyval \<times> 'n pyval \<times> 'n pyval"
  generate_anchor_box :: "py_error + 'n pyval"
  generate_label :: "'n pyval \<Rightarrow> 'n pyval \<Rightarrow> 'n pyval \<Rightarrow> py_error + 'n pyval"
  pre_collate_batch :: "'n pyval \<Rightarrow> py_error + 'n pyval"
  post_collate_batch :: "'n pyval \<Rightarrow> py_error + 'n pyval"
  downsample_lidar_minimum :: "'n pyval \<Rightarrow> py_error + 'n pyval"
  set_order :: "'n pyval list \<Rightarrow> 'n pyval list"
  reshape_poses :: "'n pyval list \<Rightarrow> py_error + 'n pyval"

fun py_num :: "'n pyval \<Rightarrow> py_error + 'n" where
  "py_num (PyNum x) = Inr x"
| "py_num v = Inl TypeError"

subsection \<open>Finding the ego agent (lines 315-327)\<close>

text \<open>
  The loop stops at the first agent whose \<^verbatim>\<open>'ego'\<close> entry is true and reads that
  agent's pose as \<^verbatim>\<open>cav_content['params']['lidar_pose']\<close>. The result is the value of
  the loop variable \<^verbatim>\<open>cav_id\<close> after the loop (\<open>None\<close>: never bound) and, when an ego
  was found, \<^verbatim>\<open>ego_id\<close> and \<^verbatim>\<open>ego_lidar_pose\<close>.
\<close>

fun find_ego_loop ::
  "(pykey \<times> 'n pyval) list \<Rightarrow> pykey option \<Rightarrow>
   py_error + pykey option \<times> (pykey \<times> 'n pyval) option" where
  "find_ego_loop [] cv = Inr (cv, None)"
| "find_ego_loop ((cav_id, cav_content) # rest) cv =
     ebind (subscript cav_content (KStr ''ego'')) (\<lambda>e.
     ebind (truthy e) (\<lambda>is_ego.
     if is_ego then
       ebind (subscript cav_content (KStr ''params'')) (\<lambda>p.
       ebind (subscript p (KStr ''lidar_pose'')) (\<lambda>pose.
       Inr (Some cav_id, Some (cav_id, pose))))
     else find_ego_loop rest (Some cav_id)))"

text \<open>The loop and the three assertions after it. Without an ego, \<^verbatim>\<open>ego_id\<close> keeps its
  initial value \<^verbatim>\<open>-1\<close> and the second assertion fails.\<close>

definition find_ego :: "(pykey \<times> 'n pyval) list \<Rightarrow> py_error + pykey \<times> 'n pyval" where
  "find_ego base_data_dict =
     ebind (find_ego_loop base_data_dict None) (\<lambda>(cv, ego).
     case cv of
       None \<Rightarrow> Inl NameError
     | Some cav_id \<Rightarrow>
         ebind (py_index (map fst base_data_dict) 0) (\<lambda>first_key.
         if cav_id \<noteq> first_key then Inl AssertionError
         else case ego of
           None \<Rightarrow> Inl AssertionError
         | Some (ego_id, ego_lidar_pose) \<Rightarrow>
             if ego_id = KInt (- 1) then Inl AssertionError
             else ebind (py_len ego_lidar_pose) (\<lambda>n.
                  if \<not> n > 0 then Inl AssertionError
                  else Inr (ego_id, ego_lidar_pose))))"

subsection \<open>Communication-range filter (lines 329-351)\<close>

text \<open>Lines 340-343: the planar distance between the pose of the agent's past frame 0
  and the ego pose.\<close>

definition pose_coordinate :: "'n pyval \<Rightarrow> int \<Rightarrow> py_error + 'n pyval" where
  "pose_coordinate selected_cav_base c =
     ebind (subscript selected_cav_base (KStr ''past_k'')) (\<lambda>pk.
     ebind (subscript pk (KInt 0)) (\<lambda>frame.
     ebind (subscript frame (KStr ''params'')) (\<lambda>p.
     ebind (subscript p (KStr ''lidar_pose'')) (\<lambda>pose.
     subscript pose (KInt c)))))"

definition squared_difference ::
  "'n arith \<Rightarrow> 'n pyval \<Rightarrow> 'n pyval \<Rightarrow> int \<Rightarrow> py_error + 'n" where
  "squared_difference ar selected_cav_base ego_lidar_pose c =
     ebind (pose_coordinate selected_cav_base c) (\<lambda>a.
     ebind (subscript ego_lidar_pose (KInt c)) (\<lambda>b.
     ebind (py_num a) (\<lambda>x.
     ebind (py_num b) (\<lambda>y.
     Inr (fsquare ar (fsub ar x y))))))"

definition cav_distance :: "'n arith \<Rightarrow> 'n pyval \<Rightarrow> 'n pyval \<Rightarrow> py_error + 'n" where
  "cav_distance ar selected_cav_base ego_lidar_pose =
     ebind (squared_difference ar selected_cav_base ego_lidar_pose 0) (\<lambda>dx2.
     ebind (squared_difference ar selected_cav_base ego_lidar_pose 1) (\<lambda>dy2.
     Inr (fsqrt ar (fadd ar dx2 dy2))))"

text \<open>The loop: the state is \<^verbatim>\<open>too_far\<close>, \<^verbatim>\<open>lidar_pose_list\<close>, \<^verbatim>\<open>cav_id_list\<close>.\<close>

fun comm_range_loop ::
  "'n arith \<Rightarrow> 'n \<Rightarrow> 'n pyval \<Rightarrow> (pykey \<times> 'n pyval) list \<Rightarrow>
   pykey list \<times> 'n pyval list \<times> pykey list \<Rightarrow>
   py_error + pykey list \<times> 'n pyval list \<times> pykey list" where
  "comm_range_loop ar cr ego_lidar_pose [] acc = Inr acc"
| "comm_range_loop ar cr ego_lidar_pose ((cav_id, selected_cav_base) # rest)
     (too_far, lidar_pose_list, cav_id_list) =
     ebind (cav_distance ar selected_cav_base ego_lidar_pose) (\<lambda>distance.
     if fgt ar distance cr then
       comm_range_loop ar cr ego_lidar_pose rest
         (too_far @ [cav_id], lidar_pose_list, cav_id_list)
     else
       ebind (subscript selected_cav_base (KStr ''params'')) (\<lambda>p.
       ebind (subscript p (KStr ''lidar_pose'')) (\<lambda>pose.
       comm_range_loop ar cr ego_lidar_pose rest
         (too_far, lidar_pose_list @ [pose], cav_id_list @ [cav_id]))))"

subsection \<open>One agent: \<^verbatim>\<open>get_item_single_car\<close> (lines 462-542)\<close>

text \<open>\<^verbatim>\<open>a[:, :3]\<close> and \<^verbatim>\<open>a[m == 1]\<close> on two-dimensional arrays.\<close>

fun first_columns :: "nat \<Rightarrow> 'n pyval \<Rightarrow> py_error + 'n pyval" where
  "first_columns c (PyArray xs) = Inr (PyArray (take c xs))"
| "first_columns c v = Inl IndexError"

fun map_rows :: "('a \<Rightarrow> py_error + 'b) \<Rightarrow> 'a list \<Rightarrow> py_error + 'b list" where
  "map_rows f [] = Inr []"
| "map_rows f (x # xs) = ebind (f x) (\<lambda>y. ebind (map_rows f xs) (\<lambda>ys. Inr (y # ys)))"

fun slice_columns :: "nat \<Rightarrow> 'n pyval \<Rightarrow> py_error + 'n pyval" where
  "slice_columns c (PyArray rows) =
     ebind (map_rows (first_columns c) rows) (\<lambda>rs. Inr (PyArray rs))"
| "slice_columns c v = Inl TypeError"

definition mask_select :: "'n arith \<Rightarrow> 'n pyval \<Rightarrow> 'n pyval \<Rightarrow> py_error + 'n pyval" where
  "mask_select ar a m =
     (case (a, m) of
        (PyArray rows, PyArray ms) \<Rightarrow>
          if length rows \<noteq> length ms then Inl IndexError
          else Inr (PyArray (map fst (filter (\<lambda>(r, b). b = PyNum (fone ar) \<or> b = PyInt 1)
                                        (zip rows ms))))
      | _ \<Rightarrow> Inl TypeError)"

text \<open>
  The loop of lines 511-526. Every pass reads the same entries of
  \<^verbatim>\<open>selected_cav_base\<close> and overwrites \<^verbatim>\<open>projected_lidar\<close> and \<^verbatim>\<open>processed_lidar\<close>;
  the state is their pair, \<open>None\<close> before the first pass. The projected points are kept
  in \<^verbatim>\<open>projected_lidar\<close> only: \<^verbatim>\<open>lidar_np\<close> itself goes on to the range mask and the
  preprocessor as it came out of \<^verbatim>\<open>mask_ego_points\<close>.
\<close>

definition single_car_pass ::
  "'n externals \<Rightarrow> 'n dataset \<Rightarrow> 'n pyval \<Rightarrow> 'n pyval \<Rightarrow> py_error + 'n pyval \<times> 'n pyval" where
  "single_car_pass ext st selected_cav_base ego_pose =
     ebind (subscript selected_cav_base (KStr ''past_k'')) (\<lambda>pk.
     ebind (subscript pk (KStr ''params'')) (\<lambda>p.
     ebind (subscript p (KStr ''lidar_pose'')) (\<lambda>pose.
     ebind (x1_to_x2 ext pose ego_pose) (\<lambda>transformation_matrix.
     ebind (subscript selected_cav_base (KStr ''lidar_np'')) (\<lambda>lidar_np.
     ebind (shuffle_points ext lidar_np) (\<lambda>lidar_np.
     ebind (mask_ego_points ext lidar_np) (\<lambda>lidar_np.
     ebind (slice_columns 3 lidar_np) (\<lambda>xyz.
     ebind (project_points_by_matrix_torch ext xyz transformation_matrix) (\<lambda>projected_lidar.
     ebind (mask_points_by_range ext lidar_np (cav_lidar_range (params st))) (\<lambda>lidar_np.
     ebind (preprocess ext lidar_np) (\<lambda>processed_lidar.
     Inr (projected_lidar, processed_lidar))))))))))))"

fun single_car_loop ::
  "'n externals \<Rightarrow> 'n dataset \<Rightarrow> 'n pyval \<Rightarrow> 'n pyval \<Rightarrow> int list \<Rightarrow>
   ('n pyval \<times> 'n pyval) option \<Rightarrow> py_error + ('n pyval \<times> 'n pyval) option" where
  "single_car_loop ext st selected_cav_base ego_pose [] acc = Inr acc"
| "single_car_loop ext st selected_cav_base ego_pose (i # rest) acc =
     ebind (single_car_pass ext st selected_cav_base ego_pose) (\<lambda>r.
     single_car_loop ext st selected_cav_base ego_pose rest (Some r))"

definition get_item_single_car ::
  "'n arith \<Rightarrow> 'n externals \<Rightarrow> 'n dataset \<Rightarrow> 'n pyval \<Rightarrow> 'n pyval \<Rightarrow> 'n pyval \<Rightarrow>
   py_error + 'n pyval" where
  "get_item_single_car ar ext st selected_cav_base ego_pose idx =
     ebind (single_car_loop ext st selected_cav_base ego_pose (py_range (self_k st)) None)
       (\<lambda>lidars.
     ebind (subscript selected_cav_base (KStr ''curr'')) (\<lambda>curr.
     ebind (subscript curr (KStr ''params'')) (\<lambda>p.
     ebind (subscript p (KStr ''lidar_pose'')) (\<lambda>pose.
     ebind (x1_to_x2 ext pose ego_pose) (\<lambda>transformation_matrix.
     ebind (subscript selected_cav_base (KStr ''curr'')) (\<lambda>curr'.
     ebind (generate_object_center ext (PyList [curr']) ego_pose)
       (\<lambda>(object_bbx_center, object_bbx_mask, object_ids).
     ebind (mask_select ar object_bbx_center object_bbx_mask) (\<lambda>boxes.
     case lidars of
       None \<Rightarrow> Inl NameError
     | Some (projected_lidar, processed_lidar) \<Rightarrow>
         Inr (PyDict [(KStr ''object_bbx_center'', boxes),
                      (KStr ''object_ids'', object_ids),
                      (KStr ''projected_lidar'', projected_lidar),
                      (KStr ''processed_features'', processed_lidar),
                      (KStr ''transformation_matrix'', transformation_matrix)])))))))))"


text \<open>
  A call of the method with a list of positional arguments (\<^verbatim>\<open>self\<close> apart): the
  method takes three, and Python raises \<^verbatim>\<open>TypeError\<close> for any other number before it
  runs the body.
\<close>

fun call_get_item_single_car ::
  "'n arith \<Rightarrow> 'n externals \<Rightarrow> 'n dataset \<Rightarrow> 'n pyval list \<Rightarrow> py_error + 'n pyval" where
  "call_get_item_single_car ar ext st [selected_cav_base, ego_pose, idx] =
     get_item_single_car ar ext st selected_cav_base ego_pose idx"
| "call_get_item_single_car ar ext st args = Inl TypeError"

subsection \<open>The loop over the retained agents (lines 353-375)\<close>

text \<open>The state is \<^verbatim>\<open>object_stack\<close>, \<^verbatim>\<open>object_id_stack\<close>, \<^verbatim>\<open>processed_features\<close> and
  \<^verbatim>\<open>projected_lidar_stack\<close>.\<close>

fun process_loop ::
  "'n arith \<Rightarrow> 'n externals \<Rightarrow> 'n dataset \<Rightarrow> (pykey \<times> 'n pyval) list \<Rightarrow> pykey \<Rightarrow>
   'n pyval \<Rightarrow> int \<Rightarrow> pykey list \<Rightarrow>
   'n pyval list \<times> 'n pyval list \<times> 'n pyval list \<times> 'n pyval list \<Rightarrow>
   py_error + 'n pyval list \<times> 'n pyval list \<times> 'n pyval list \<times> 'n pyval list" where
  "process_loop ar ext st base_data_dict ego_id ego_lidar_pose idx [] acc = Inr acc"
| "process_loop ar ext st base_data_dict ego_id ego_lidar_pose idx (cav_id # rest)
     (object_stack, object_id_stack, processed_features, projected_lidar_stack) =
     ebind (dict_get base_data_dict cav_id) (\<lambda>selected_cav_base.
     ebind (call_get_item_single_car ar ext st
              [selected_cav_base, ego_lidar_pose, PyBool (cav_id = ego_id), PyInt idx])
       (\<lambda>selected_cav_processed.
     ebind (subscript selected_cav_processed (KStr ''object_bbx_center'')) (\<lambda>boxes.
     ebind (subscript selected_cav_processed (KStr ''object_ids'')) (\<lambda>ids.
     ebind (py_iter ids) (\<lambda>id_list.
     ebind (subscript selected_cav_processed (KStr ''processed_features'')) (\<lambda>feats.
     ebind (if visualize st
            then ebind (subscript selected_cav_processed (KStr ''projected_lidar''))
                   (\<lambda>pl. Inr (projected_lidar_stack @ [pl]))
            else Inr projected_lidar_stack) (\<lambda>projected_lidar_stack'.
     process_loop ar ext st base_data_dict ego_id ego_lidar_pose idx rest
       (object_stack @ [boxes], object_id_stack @ id_list, processed_features @ [feats],
        projected_lidar_stack'))))))))"

subsection \<open>Pairwise transformations: \<^verbatim>\<open>get_pairwise_transformation\<close> (lines 757-802)\<close>

definition eye4 :: "'n arith \<Rightarrow> 'n pyval" where
  "eye4 ar =
     PyArray (map (\<lambda>i. PyArray (map (\<lambda>j. PyNum (if i = j then fone ar else fzero ar))
                                   [0 ..< 4])) [0 ..< (4::nat)])"

text \<open>\<^verbatim>\<open>np.tile(np.eye(4), (max_cav, max_cav, 1, 1))\<close>: a negative repetition count is an
  error.\<close>

definition identity_tensor :: "'n arith \<Rightarrow> int \<Rightarrow> py_error + 'n pyval list list" where
  "identity_tensor ar max_cav =
     (if max_cav < 0 then Inl ValueError
      else Inr (replicate (nat max_cav) (replicate (nat max_cav) (eye4 ar))))"

text \<open>\<^verbatim>\<open>pairwise_t_matrix[i, j] = t_matrix\<close>.\<close>

definition tensor_set ::
  "'m list list \<Rightarrow> nat \<Rightarrow> nat \<Rightarrow> 'm \<Rightarrow> py_error + 'm list list" where
  "tensor_set t i j m =
     (if i < length t \<and> j < length (t ! i) then Inr (t[i := (t ! i)[j := m]])
      else Inl IndexError)"

text \<open>Lines 789-791: the world matrix of every agent, in the order of the dictionary.\<close>

fun world_matrices ::
  "'n externals \<Rightarrow> (pykey \<times> 'n pyval) list \<Rightarrow> py_error + 'n pyval list" where
  "world_matrices ext [] = Inr []"
| "world_matrices ext ((cav_id, cav_content) # rest) =
     ebind (subscript cav_content (KStr ''params'')) (\<lambda>p.
     ebind (subscript p (KStr ''lidar_pose'')) (\<lambda>lidar_pose.
     ebind (x_to_world ext lidar_pose) (\<lambda>t.
     ebind (world_matrices ext rest) (\<lambda>ts. Inr (t # ts)))))"

text \<open>Lines 793-800: the two nested loops, as one pass over the pairs \<open>(i, j)\<close> in the
  order the loops visit them.\<close>

fun fill_pairs ::
  "'n externals \<Rightarrow> 'n pyval list \<Rightarrow> (nat \<times> nat) list \<Rightarrow> 'n pyval list list \<Rightarrow>
   py_error + 'n pyval list list" where
  "fill_pairs ext t_list [] pairwise_t_matrix = Inr pairwise_t_matrix"
| "fill_pairs ext t_list ((i, j) # rest) pairwise_t_matrix =
     (if i \<noteq> j then
        ebind (linalg_solve ext (t_list ! j) (t_list ! i)) (\<lambda>t_matrix.
        ebind (tensor_set pairwise_t_matrix i j t_matrix) (\<lambda>pairwise_t_matrix'.
        fill_pairs ext t_list rest pairwise_t_matrix'))
      else fill_pairs ext t_list rest pairwise_t_matrix)"

definition index_pairs :: "nat \<Rightarrow> (nat \<times> nat) list" where
  "index_pairs n = concat (map (\<lambda>i. map (\<lambda>j. (i, j)) [0 ..< n]) [0 ..< n])"

definition get_pairwise_transformation ::
  "'n arith \<Rightarrow> 'n externals \<Rightarrow> 'n dataset \<Rightarrow> (pykey \<times> 'n pyval) list \<Rightarrow> int \<Rightarrow>
   py_error + 'n pyval list list" where
  "get_pairwise_transformation ar ext st base_data_dict max_cav =
     ebind (identity_tensor ar max_cav) (\<lambda>pairwise_t_matrix.
     if proj_first st then Inr pairwise_t_matrix
     else
       ebind (world_matrices ext base_data_dict) (\<lambda>t_list.
       fill_pairs ext t_list (index_pairs (length t_list)) pairwise_t_matrix))"

subsection \<open>Merging the objects (lines 406-417)\<close>

text \<open>\<^verbatim>\<open>xs.index(x)\<close>: the first position of \<open>x\<close>.\<close>

fun list_index :: "'a list \<Rightarrow> 'a \<Rightarrow> py_error + nat" where
  "list_index [] x = Inl ValueError"
| "list_index (y # ys) x =
     (if y = x then Inr 0 else ebind (list_index ys x) (\<lambda>n. Inr (Suc n)))"

text \<open>\<^verbatim>\<open>np.vstack\<close> of a list of two-dimensional arrays: it refuses an empty list.\<close>

fun array_rows :: "'n pyval \<Rightarrow> py_error + 'n pyval list" where
  "array_rows (PyArray rows) = Inr rows"
| "array_rows v = Inl ValueError"

definition vstack :: "'n pyval list \<Rightarrow> py_error + 'n pyval list" where
  "vstack arrays =
     (if arrays = [] then Inl ValueError
      else ebind (map_rows array_rows arrays) (\<lambda>rs. Inr (concat rs)))"

text \<open>\<^verbatim>\<open>a[indices]\<close> with a list of row positions.\<close>

definition take_rows :: "'a list \<Rightarrow> nat list \<Rightarrow> py_error + 'a list" where
  "take_rows rows indices = map_rows (\<lambda>i. py_index rows (int i)) indices"

text \<open>
  Lines 413-417. \<^verbatim>\<open>np.zeros\<close> refuses a negative size. The assignment
  \<^verbatim>\<open>object_bbx_center[:n, :] = object_stack\<close> writes \<open>n\<close> rows into a slice of
  \<open>min n max_num\<close> rows: numpy accepts it when the two agree, or when \<open>object_stack\<close> has
  a single row, which it broadcasts over the slice (here an empty one), and raises
  \<^verbatim>\<open>ValueError\<close> otherwise.
\<close>

definition pad_boxes ::
  "'n arith \<Rightarrow> int \<Rightarrow> 'n pyval list \<Rightarrow> py_error + 'n pyval list \<times> 'n pyval list" where
  "pad_boxes ar mx object_stack =
     (let n = length object_stack;
          zero_row = PyArray (replicate 7 (PyNum (fzero ar)))
      in if mx < 0 then Inl ValueError
         else if int n \<le> mx then
           Inr (object_stack @ replicate (nat mx - n) zero_row,
                replicate n (PyNum (fone ar)) @ replicate (nat mx - n) (PyNum (fzero ar)))
         else if n = 1 then
           Inr (replicate (nat mx) zero_row, replicate (nat mx) (PyNum (fzero ar)))
         else Inl ValueError)"

definition merge_objects ::
  "'n arith \<Rightarrow> 'n externals \<Rightarrow> int \<Rightarrow> 'n pyval list \<Rightarrow> 'n pyval list \<Rightarrow>
   py_error + 'n pyval list \<times> 'n pyval list \<times> nat list" where
  "merge_objects ar ext mx object_stack object_id_stack =
     ebind (map_rows (list_index object_id_stack) (set_order ext object_id_stack))
       (\<lambda>unique_indices.
     ebind (vstack object_stack) (\<lambda>rows.
     ebind (take_rows rows unique_indices) (\<lambda>object_stack'.
     ebind (pad_boxes ar mx object_stack') (\<lambda>(object_bbx_center, mask).
     Inr (object_bbx_center, mask, unique_indices)))))"

subsection \<open>\<^verbatim>\<open>merge_features_to_dict\<close> (lines 568-596)\<close>

fun merge_feature ::
  "(pykey \<times> 'n pyval) list \<Rightarrow> pykey \<times> 'n pyval \<Rightarrow> py_error + (pykey \<times> 'n pyval) list" where
  "merge_feature merged (feature_name, feature) =
     (let merged' = (case dict_get merged feature_name of
                       Inl e \<Rightarrow> dict_set merged feature_name (PyList [])
                     | Inr v \<Rightarrow> merged)
      in ebind (dict_get merged' feature_name) (\<lambda>cur.
         case cur of
           PyList xs \<Rightarrow>
             (case feature of
                PyList fs \<Rightarrow> Inr (dict_set merged' feature_name (PyList (xs @ fs)))
              | _ \<Rightarrow> Inr (dict_set merged' feature_name (PyList (xs @ [feature]))))
         | _ \<Rightarrow> Inl AttributeError))"

fun fold_err :: "('s \<Rightarrow> 'a \<Rightarrow> py_error + 's) \<Rightarrow> 's \<Rightarrow> 'a list \<Rightarrow> py_error + 's" where
  "fold_err f s [] = Inr s"
| "fold_err f s (x # xs) = ebind (f s x) (\<lambda>s'. fold_err f s' xs)"

definition merge_features_to_dict ::
  "'n pyval list \<Rightarrow> py_error + (pykey \<times> 'n pyval) list" where
  "merge_features_to_dict processed_feature_list =
     fold_err (\<lambda>merged d. ebind (items d) (\<lambda>its. fold_err merge_feature merged its))
       [] processed_feature_list"

subsection \<open>\<^verbatim>\<open>__getitem__\<close> (lines 298-459)\<close>

fun pop_all ::
  "(pykey \<times> 'n pyval) list \<Rightarrow> pykey list \<Rightarrow> py_error + (pykey \<times> 'n pyval) list" where
  "pop_all d [] = Inr d"
| "pop_all d (cav_id # rest) = ebind (dict_pop d cav_id) (\<lambda>d'. pop_all d' rest)"

text \<open>
  The dictionary that lines 434-444 build names \<^verbatim>\<open>lidar_poses_clean\<close>, which this
  method never assigns (line 395 is a comment): evaluating it raises \<^verbatim>\<open>NameError\<close>, so
  no path through the body reaches the \<^verbatim>\<open>return\<close> of line 459.
\<close>

definition getitem ::
  "'n arith \<Rightarrow> 'n externals \<Rightarrow> 'n loaders \<Rightarrow> 'n dataset \<Rightarrow> int \<Rightarrow> py_error + 'n pyval" where
  "getitem ar ext io st idx =
     ebind (retrieve_base_data st io idx) (\<lambda>base_data_dict.
     ebind (find_ego base_data_dict) (\<lambda>(ego_id, ego_lidar_pose).
     ebind (comm_range_loop ar (comm_range (params st)) ego_lidar_pose base_data_dict
              ([], [], [])) (\<lambda>(too_far, lidar_pose_list, cav_id_list).
     ebind (process_loop ar ext st base_data_dict ego_id ego_lidar_pose idx cav_id_list
              ([], [], [], []))
       (\<lambda>(object_stack, object_id_stack, processed_features, projected_lidar_stack).
     ebind (pop_all base_data_dict too_far) (\<lambda>base_data_dict'.
     ebind (get_pairwise_transformation ar ext st base_data_dict' (self_max_cav st))
       (\<lambda>pairwise_t_matrix.
     ebind (reshape_poses ext lidar_pose_list) (\<lambda>lidar_poses.
     ebind (merge_objects ar ext (max_num (params st)) object_stack object_id_stack)
       (\<lambda>(object_bbx_center, mask, unique_indices).
     ebind (merge_features_to_dict processed_features) (\<lambda>merged_feature_dict.
     ebind (generate_anchor_box ext) (\<lambda>anchor_box.
     ebind (generate_label ext (PyArray object_bbx_center) anchor_box (PyArray mask))
       (\<lambda>label_dict.
     Inl NameError)))))))))))"


section \<open>Collation: \<^verbatim>\<open>collate_batch_train\<close> and \<^verbatim>\<open>collate_batch_test\<close>\<close>

text \<open>The lists that the loop of lines 620-638 fills, one entry per sample.\<close>

record 'n collected =
  c_object_bbx_center :: "'n pyval list"
  c_object_bbx_mask :: "'n pyval list"
  c_object_ids :: "'n pyval list"
  c_lidar_pose_list :: "'n pyval list"
  c_lidar_pose_clean_list :: "'n pyval list"
  c_processed_lidar_list :: "'n pyval list"
  c_record_len :: "'n pyval list"
  c_label_dict_list :: "'n pyval list"
  c_pairwise_t_matrix_list :: "'n pyval list"
  c_teacher_processed_lidar_list :: "'n pyval list"
  c_origin_lidar :: "'n pyval list"

definition no_samples :: "'n collected" where
  "no_samples =
     \<lparr> c_object_bbx_center = [], c_object_bbx_mask = [], c_object_ids = [],
       c_lidar_pose_list = [], c_lidar_pose_clean_list = [], c_processed_lidar_list = [],
       c_record_len = [], c_label_dict_list = [], c_pairwise_t_matrix_list = [],
       c_teacher_processed_lidar_list = [], c_origin_lidar = [] \<rparr>"

definition collect_sample ::
  "'n dataset \<Rightarrow> 'n collected \<Rightarrow> 'n pyval \<Rightarrow> py_error + 'n collected" where
  "collect_sample st c sample =
     ebind (subscript sample (KStr ''ego'')) (\<lambda>ego_dict.
     ebind (subscript ego_dict (KStr ''object_bbx_center'')) (\<lambda>v1.
     ebind (subscript ego_dict (KStr ''object_bbx_mask'')) (\<lambda>v2.
     ebind (subscript ego_dict (KStr ''object_ids'')) (\<lambda>v3.
     ebind (subscript ego_dict (KStr ''lidar_poses'')) (\<lambda>v4.
     ebind (subscript ego_dict (KStr ''lidar_poses_clean'')) (\<lambda>v5.
     ebind (subscript ego_dict (KStr ''processed_lidar'')) (\<lambda>v6.
     ebind (subscript ego_dict (KStr ''cav_num'')) (\<lambda>v7.
     ebind (subscript ego_dict (KStr ''label_dict'')) (\<lambda>v8.
     ebind (subscript ego_dict (KStr ''pairwise_t_matrix'')) (\<lambda>v9.
     ebind (if kd_flag st
            then ebind (subscript ego_dict (KStr ''teacher_processed_lidar''))
                   (\<lambda>t. Inr (c_teacher_processed_lidar_list c @ [t]))
            else Inr (c_teacher_processed_lidar_list c)) (\<lambda>teacher.
     ebind (if visualize st
            then ebind (subscript ego_dict (KStr ''origin_lidar''))
                   (\<lambda>l. Inr (c_origin_lidar c @ [l]))
            else Inr (c_origin_lidar c)) (\<lambda>origin.
     Inr \<lparr> c_object_bbx_center = c_object_bbx_center c @ [v1],
           c_object_bbx_mask = c_object_bbx_mask c @ [v2],
           c_object_ids = c_object_ids c @ [v3],
           c_lidar_pose_list = c_lidar_pose_list c @ [v4],
           c_lidar_pose_clean_list = c_lidar_pose_clean_list c @ [v5],
           c_processed_lidar_list = c_processed_lidar_list c @ [v6],
           c_record_len = c_record_len c @ [v7],
           c_label_dict_list = c_label_dict_list c @ [v8],
           c_pairwise_t_matrix_list = c_pairwise_t_matrix_list c @ [v9],
           c_teacher_processed_lidar_list = teacher,
           c_origin_lidar = origin \<rparr>))))))))))))"

text \<open>\<^verbatim>\<open>np.concatenate(arrays, axis=0)\<close>: it needs at least one array.\<close>

definition np_concatenate :: "'n pyval list \<Rightarrow> py_error + 'n pyval" where
  "np_concatenate arrays =
     (if arrays = [] then Inl ValueError
      else ebind (map_rows array_rows arrays) (\<lambda>rs. Inr (PyArray (concat rs))))"

text \<open>
  Machine integers. \<^verbatim>\<open>np.array(record_len, dtype=int)\<close> makes 64-bit integers of the
  agent counts (\<^verbatim>\<open>cav_num\<close> is a \<^verbatim>\<open>len(...)\<close>): a Python integer outside their range
  raises \<^verbatim>\<open>OverflowError\<close>, a float is truncated; an entry that is no number counts
  as refused. The tensor method \<^verbatim>\<open>.int()\<close> casts to 32 bits, and an integer outside
  that range wraps around (\<open>int32\<close>).
\<close>

definition int32 :: "int \<Rightarrow> int" where
  "int32 i = (i + 2 ^ 31) mod 2 ^ 32 - 2 ^ 31"

fun np_int :: "'n arith \<Rightarrow> 'n pyval \<Rightarrow> py_error + int" where
  "np_int ar (PyInt i) = (if - (2 ^ 63) \<le> i \<and> i < 2 ^ 63 then Inr i else Inl OverflowError)"
| "np_int ar (PyBool b) = Inr (if b then 1 else 0)"
| "np_int ar (PyNum x) = Inr (ftrunc ar x)"
| "np_int ar v = Inl TypeError"

fun torch_int :: "'n arith \<Rightarrow> 'n pyval \<Rightarrow> py_error + int" where
  "torch_int ar (PyInt i) = Inr (int32 i)"
| "torch_int ar (PyBool b) = Inr (if b then 1 else 0)"
| "torch_int ar (PyNum x) = Inr (int32 (ftrunc ar x))"
| "torch_int ar v = Inl TypeError"

text \<open>\<^verbatim>\<open>t[:, 0]\<close> and \<^verbatim>\<open>.max()\<close> on a tensor; the maximum of an empty tensor is an error.\<close>

fun column0 :: "'n pyval \<Rightarrow> py_error + 'n pyval list" where
  "column0 (PyArray rows) = map_rows (\<lambda>r. subscript r (KInt 0)) rows"
| "column0 v = Inl TypeError"

fun py_gt :: "'n arith \<Rightarrow> 'n pyval \<Rightarrow> 'n pyval \<Rightarrow> py_error + bool" where
  "py_gt ar (PyInt a) (PyInt b) = Inr (a > b)"
| "py_gt ar (PyNum a) (PyNum b) = Inr (fgt ar a b)"
| "py_gt ar a b = Inl TypeError"

fun tensor_max :: "'n arith \<Rightarrow> 'n pyval list \<Rightarrow> py_error + 'n pyval" where
  "tensor_max ar [] = Inl RuntimeError"
| "tensor_max ar (x # xs) =
     fold_err (\<lambda>m y. ebind (py_gt ar y m) (\<lambda>g. Inr (if g then y else m))) x xs"

text \<open>Lines 691-692, the second operand of the \<^verbatim>\<open>and\<close>: whether the largest entry of
  the batch-index column, cast to 32 bits, plus one (a Python integer after
  \<^verbatim>\<open>.item()\<close>), differs from the sum of \<^verbatim>\<open>record_len\<close> cast to 32 bits. The sum of the
  64-bit tensor wraps at 64 bits, which the cast to 32 bits absorbs.\<close>

definition batch_index_mismatch ::
  "'n arith \<Rightarrow> 'n pyval \<Rightarrow> int list \<Rightarrow> py_error + bool" where
  "batch_index_mismatch ar processed_lidar_torch_dict record_len =
     ebind (subscript processed_lidar_torch_dict (KStr ''voxel_coords'')) (\<lambda>voxel_coords.
     ebind (column0 voxel_coords) (\<lambda>col.
     ebind (tensor_max ar col) (\<lambda>m.
     ebind (torch_int ar m) (\<lambda>mi.
     Inr (mi + 1 \<noteq> int32 (sum_list record_len))))))"

text \<open>\<^verbatim>\<open>d[k] = v\<close> on a value.\<close>

fun setitem :: "'n pyval \<Rightarrow> pykey \<Rightarrow> 'n pyval \<Rightarrow> py_error + 'n pyval" where
  "setitem (PyDict d) k v = Inr (PyDict (dict_set d k v))"
| "setitem u k v = Inl TypeError"

text \<open>
  Lines 598-689 of \<^verbatim>\<open>collate_batch_train\<close>: the entries of \<^verbatim>\<open>output_dict['ego']\<close>
  and \<^verbatim>\<open>record_len\<close>, as they stand before the check of line 691.
  \<^verbatim>\<open>torch.from_numpy\<close> and \<^verbatim>\<open>np.array\<close> on a list of equally shaped arrays keep the
  entries, so they leave the value as it is.
\<close>

definition assemble_batch ::
  "'n arith \<Rightarrow> 'n externals \<Rightarrow> 'n dataset \<Rightarrow> 'n pyval list \<Rightarrow>
   py_error + (pykey \<times> 'n pyval) list \<times> int list" where
  "assemble_batch ar ext st batch =
     ebind (fold_err (collect_sample st) no_samples batch) (\<lambda>c.
     let object_bbx_center = PyArray (c_object_bbx_center c);
         object_bbx_mask = PyArray (c_object_bbx_mask c)
     in
     ebind (merge_features_to_dict (c_processed_lidar_list c)) (\<lambda>merged_feature_dict.
     ebind (pre_collate_batch ext (PyDict merged_feature_dict)) (\<lambda>processed_lidar_torch_dict.
     ebind (map_rows (np_int ar) (c_record_len c)) (\<lambda>record_len.
     ebind (np_concatenate (c_lidar_pose_list c)) (\<lambda>lidar_pose.
     ebind (np_concatenate (c_lidar_pose_clean_list c)) (\<lambda>lidar_pose_clean.
     ebind (post_collate_batch ext (PyList (c_label_dict_list c))) (\<lambda>label_torch_dict.
     let pairwise_t_matrix = PyArray (c_pairwise_t_matrix_list c);
         record_len_t = PyArray (map PyInt record_len)
     in
     ebind (setitem label_torch_dict (KStr ''pairwise_t_matrix'') pairwise_t_matrix)
       (\<lambda>label_torch_dict.
     ebind (setitem label_torch_dict (KStr ''record_len'') record_len_t)
       (\<lambda>label_torch_dict.
     ebind (py_index (c_object_ids c) 0) (\<lambda>object_ids0.
     let ego = [(KStr ''object_bbx_center'', object_bbx_center),
                (KStr ''object_bbx_mask'', object_bbx_mask),
                (KStr ''processed_lidar'', processed_lidar_torch_dict),
                (KStr ''record_len'', record_len_t),
                (KStr ''label_dict'', label_torch_dict),
                (KStr ''object_ids'', object_ids0),
                (KStr ''pairwise_t_matrix'', pairwise_t_matrix),
                (KStr ''lidar_pose_clean'', lidar_pose_clean),
                (KStr ''lidar_pose'', lidar_pose)]
     in
     ebind (if visualize st
            then ebind (downsample_lidar_minimum ext (PyList (c_origin_lidar c)))
                   (\<lambda>origin_lidar. Inr (dict_set ego (KStr ''origin_lidar'') origin_lidar))
            else Inr ego) (\<lambda>ego.
     ebind (if kd_flag st
            then ebind (pre_collate_batch ext (PyList (c_teacher_processed_lidar_list c)))
                   (\<lambda>t. Inr (dict_set ego (KStr ''teacher_processed_lidar'') t))
            else Inr ego) (\<lambda>ego.
     Inr (ego, record_len)))))))))))))"

text \<open>
  \<^verbatim>\<open>collate_batch_train\<close> (lines 598-695): the assembly, then the check of lines
  691-693, whose second operand is evaluated only for the preprocessor named there.
  The result \<open>PyNone\<close> is the \<^verbatim>\<open>return None\<close> of line 693.
\<close>

definition collate_batch_train ::
  "'n arith \<Rightarrow> 'n externals \<Rightarrow> 'n dataset \<Rightarrow> 'n pyval list \<Rightarrow> py_error + 'n pyval" where
  "collate_batch_train ar ext st batch =
     ebind (assemble_batch ar ext st batch) (\<lambda>(ego, record_len).
     ebind (if core_method (params st) = ''SpVoxelPreprocessor''
            then ebind (dict_get ego (KStr ''processed_lidar''))
                   (\<lambda>pl. batch_index_mismatch ar pl record_len)
            else Inr False) (\<lambda>invalid.
     if invalid then Inr PyNone
     else Inr (PyDict [(KStr ''ego'', PyDict ego)])))"

text \<open>\<^verbatim>\<open>collate_batch_test\<close> (lines 697-730).\<close>

definition collate_batch_test ::
  "'n arith \<Rightarrow> 'n externals \<Rightarrow> 'n dataset \<Rightarrow> 'n pyval list \<Rightarrow> py_error + 'n pyval" where
  "collate_batch_test ar ext st batch =
     (if \<not> int (length batch) \<le> 1 then Inl AssertionError
      else
        ebind (collate_batch_train ar ext st batch) (\<lambda>output_dict.
        if output_dict = PyNone then Inr PyNone
        else
          ebind (py_index batch 0) (\<lambda>b0.
          ebind (subscript b0 (KStr ''ego'')) (\<lambda>b0_ego.
          ebind (subscript b0_ego (KStr ''anchor_box'')) (\<lambda>anchor_box.
          ebind (subscript output_dict (KStr ''ego'')) (\<lambda>out_ego.
          ebind (if anchor_box \<noteq> PyNone
                 then setitem out_ego (KStr ''anchor_box'') anchor_box
                 else Inr out_ego) (\<lambda>out_ego.
          ebind (setitem out_ego (KStr ''transformation_matrix'') (eye4 ar)) (\<lambda>out_ego.
          ebind (setitem out_ego (KStr ''transformation_matrix_clean'') (eye4 ar)) (\<lambda>out_ego.
          ebind (subscript b0_ego (KStr ''sample_idx'')) (\<lambda>sample_idx.
          ebind (subscript b0_ego (KStr ''cav_id_list'')) (\<lambda>cav_id_list.
          ebind (setitem out_ego (KStr ''sample_idx'') sample_idx) (\<lambda>out_ego.
          ebind (setitem out_ego (KStr ''cav_id_list'') cav_id_list) (\<lambda>out_ego.
          setitem output_dict (KStr ''ego'') out_ego)))))))))))))"


section \<open>A small dataset and stand-ins for the collaborators\<close>

text \<open>
  Concrete inputs on which the definitions above are run. \<open>timestamp_stems\<close> stands
  for \<^verbatim>\<open>extract_timestamps\<close>: the file name without its directory and its
  \<^verbatim>\<open>.yaml\<close>. The tree has one scenario \<^verbatim>\<open>d/s0\<close> with the agents \<^verbatim>\<open>a\<close>, \<^verbatim>\<open>b\<close>
  and \<^verbatim>\<open>c\<close>, five frames each, and a plain file beside it.
\<close>

definition timestamp_stems :: "string list \<Rightarrow> string list" where
  "timestamp_stems yaml_files =
     map (\<lambda>f. let res = rev (takeWhile (\<lambda>c. c \<noteq> CHR ''/'') (rev f))
               in take (length res - 5) res) yaml_files"

definition demo_fs :: filesystem where
  "demo_fs =
     \<lparr> listdir = (\<lambda>p.
         if p = ''d'' then [''s0'', ''notes.txt'']
         else if p = ''d/s0'' then [''b'', ''c'', ''a'']
         else if p = ''d/s0/a'' \<or> p = ''d/s0/b'' \<or> p = ''d/s0/c''
         then [''2.yaml'', ''0.yaml'', ''0.pcd'', ''1.yaml'', ''4.yaml'', ''3.yaml'']
         else []),
       isdir = (\<lambda>p. p = ''d'' \<or> p = ''d/s0'' \<or> p = ''d/s0/a'' \<or> p = ''d/s0/b''
                   \<or> p = ''d/s0/c'') \<rparr>"

definition demo_hypes :: "int \<Rightarrow> int \<Rightarrow> string \<Rightarrow> real hypes" where
  "demo_hypes k tau method =
     \<lparr> num_sweep_frames = Some k, time_delay = Some tau, proj_first_opt = Some False,
       root_dir = ''d'', validate_dir = ''d'', max_cav_opt = Some 2, comm_range = 5,
       max_num = 4,
       cav_lidar_range = PyList (map PyNum [- 5, - 5, - 3, 5, 5, 1]), core_method = method \<rparr>"

definition demo_io :: "real loaders" where
  "demo_io = \<lparr> load_yaml = (\<lambda>p. Inr (PyDict [(KStr ''source'', p)])),
               pcd_to_np = (\<lambda>p. Inr (PyArray [])) \<rparr>"

definition demo_init :: "int \<Rightarrow> int \<Rightarrow> py_error + real dataset" where
  "demo_init k tau =
     init demo_fs timestamp_stems False (demo_hypes k tau ''SpVoxelPreprocessor'') False True"

text \<open>What \<open>demo_init\<close> builds: the agents \<^verbatim>\<open>a\<close> (ego) and \<^verbatim>\<open>b\<close>; \<^verbatim>\<open>c\<close> is
  beyond \<^verbatim>\<open>max_cav = 2\<close>.\<close>

definition demo_db :: "(pykey \<times> real pyval) list" where
  "demo_db =
     [(KInt 0,
       PyDict (map (\<lambda>(c, e).
                 (KStr c,
                  PyDict ((KStr ''ego'', PyBool e) #
                          map (\<lambda>t. (KStr t, frame_entry (''d/s0/'' @ c) t))
                            [''0'', ''1'', ''2'', ''3'', ''4''])))
               [(''a'', True), (''b'', False)]))]"

definition demo_dataset :: "int \<Rightarrow> int \<Rightarrow> real dataset" where
  "demo_dataset k tau =
     \<lparr> params = demo_hypes k tau ''SpVoxelPreprocessor'', visualize = False, train = True,
       kd_flag = False, self_k = k, self_tau = tau, proj_first = False, self_max_cav = 2,
       scenario_database = demo_db, len_record = [5 - (tau + k - 1)] \<rparr>"

text \<open>
  Arithmetic on the reals, and stand-ins for the geometry helpers that are exact for
  poses without rotation: the world matrix of a pose is the translation by its
  \<open>(x, y, z)\<close>, and solving \<open>T\<^sub>j X = T\<^sub>i\<close> for two translations gives the translation by
  their difference.
\<close>

definition demo_arith :: "real arith" where
  "demo_arith =
     \<lparr> fsub = (\<lambda>a b. a - b), fadd = (\<lambda>a b. a + b), fsquare = (\<lambda>a. a * a), fsqrt = sqrt,
       fgt = (\<lambda>a b. a > b), fzero = 0, fone = 1,
       ftrunc = (\<lambda>a. if 0 \<le> a then \<lfloor>a\<rfloor> else \<lceil>a\<rceil>) \<rparr>"

definition translation_matrix :: "real \<Rightarrow> real \<Rightarrow> real \<Rightarrow> real pyval" where
  "translation_matrix dx dy dz =
     PyArray [PyArray [PyNum 1, PyNum 0, PyNum 0, PyNum dx],
              PyArray [PyNum 0, PyNum 1, PyNum 0, PyNum dy],
              PyArray [PyNum 0, PyNum 0, PyNum 1, PyNum dz],
              PyArray [PyNum 0, PyNum 0, PyNum 0, PyNum 1]]"

definition entry_num :: "real pyval \<Rightarrow> int \<Rightarrow> py_error + real" where
  "entry_num v i = ebind (subscript v (KInt i)) py_num"

definition pose_xyz :: "real pyval \<Rightarrow> py_error + real \<times> real \<times> real" where
  "pose_xyz v =
     ebind (entry_num v 0) (\<lambda>x. ebind (entry_num v 1) (\<lambda>y. ebind (entry_num v 2) (\<lambda>z.
     Inr (x, y, z))))"

definition matrix_entry :: "real pyval \<Rightarrow> int \<Rightarrow> py_error + real" where
  "matrix_entry m i = ebind (subscript m (KInt i)) (\<lambda>r. entry_num r 3)"

definition matrix_xyz :: "real pyval \<Rightarrow> py_error + real \<times> real \<times> real" where
  "matrix_xyz m =
     ebind (matrix_entry m 0) (\<lambda>x. ebind (matrix_entry m 1) (\<lambda>y. ebind (matrix_entry m 2) (\<lambda>z.
     Inr (x, y, z))))"

definition demo_x_to_world :: "real pyval \<Rightarrow> py_error + real pyval" where
  "demo_x_to_world pose =
     ebind (pose_xyz pose) (\<lambda>(x, y, z). Inr (translation_matrix x y z))"

definition demo_x1_to_x2 :: "real pyval \<Rightarrow> real pyval \<Rightarrow> py_error + real pyval" where
  "demo_x1_to_x2 x1 x2 =
     ebind (pose_xyz x1) (\<lambda>(a, b, c).
     ebind (pose_xyz x2) (\<lambda>(d, e, f). Inr (translation_matrix (a - d) (b - e) (c - f))))"

definition demo_solve :: "real pyval \<Rightarrow> real pyval \<Rightarrow> py_error + real pyval" where
  "demo_solve tj ti =
     ebind (matrix_xyz tj) (\<lambda>(a, b, c).
     ebind (matrix_xyz ti) (\<lambda>(d, e, f). Inr (translation_matrix (d - a) (e - b) (f - c))))"

text \<open>Stand-ins for the point-cloud helpers: no reordering, the self-reflection box and
  the range test of \<^verbatim>\<open>pcd_utils\<close>, and the projection of points by a translation.\<close>

definition demo_mask_ego_points :: "real pyval \<Rightarrow> py_error + real pyval" where
  "demo_mask_ego_points points =
     ebind (array_rows points) (\<lambda>rows.
     ebind (map_rows pose_xyz rows) (\<lambda>ps.
     Inr (PyArray (map fst (filter (\<lambda>(r, (x, y, z)).
            x \<ge> 2.95 \<or> x \<le> - 1.95 \<or> y \<ge> 1.1 \<or> y \<le> - 1.1) (zip rows ps))))))"

definition demo_mask_points_by_range :: "real pyval \<Rightarrow> real pyval \<Rightarrow> py_error + real pyval" where
  "demo_mask_points_by_range points limit_range =
     ebind (array_rows points) (\<lambda>rows.
     ebind (map_rows pose_xyz rows) (\<lambda>ps.
     ebind (py_iter limit_range) (\<lambda>lim.
     ebind (map_rows py_num lim) (\<lambda>l.
     if length l \<noteq> 6 then Inl IndexError
     else Inr (PyArray (map fst (filter (\<lambda>(r, (x, y, z)).
            x > l ! 0 \<and> x < l ! 3 \<and> y > l ! 1 \<and> y < l ! 4 \<and> z > l ! 2 \<and> z < l ! 5)
            (zip rows ps))))))))"

definition demo_project_points :: "real pyval \<Rightarrow> real pyval \<Rightarrow> py_error + real pyval" where
  "demo_project_points points transformation_matrix =
     ebind (array_rows points) (\<lambda>rows.
     ebind (map_rows pose_xyz rows) (\<lambda>ps.
     ebind (matrix_xyz transformation_matrix) (\<lambda>(dx, dy, dz).
     Inr (PyArray (map (\<lambda>(x, y, z). PyArray [PyNum (x + dx), PyNum (y + dy), PyNum (z + dz)])
                     ps)))))"

text \<open>A stand-in for the sparse-voxel collation: the coordinate tables of the agents are
  stacked, each row with the position of its table in front, as the batch-index column.\<close>

definition with_batch_index :: "nat \<Rightarrow> real pyval \<Rightarrow> py_error + real pyval list" where
  "with_batch_index i coords =
     ebind (array_rows coords) (\<lambda>rows.
     ebind (map_rows array_rows rows) (\<lambda>rs.
     Inr (map (\<lambda>r. PyArray (PyInt (int i) # r)) rs)))"

definition demo_pre_collate_batch :: "real pyval \<Rightarrow> py_error + real pyval" where
  "demo_pre_collate_batch merged =
     ebind (subscript merged (KStr ''voxel_coords'')) (\<lambda>tables.
     ebind (py_iter tables) (\<lambda>ts.
     ebind (map_rows (\<lambda>(i, t). with_batch_index i t) (zip [0 ..< length ts] ts)) (\<lambda>rs.
     Inr (PyDict [(KStr ''voxel_coords'', PyArray (concat rs))]))))"

definition demo_ext :: "real externals" where
  "demo_ext =
     \<lparr> x1_to_x2 = demo_x1_to_x2, x_to_world = demo_x_to_world, linalg_solve = demo_solve,
       shuffle_points = Inr, mask_ego_points = demo_mask_ego_points,
       project_points_by_matrix_torch = demo_project_points,
       mask_points_by_range = demo_mask_points_by_range,
       preprocess = (\<lambda>points. Inr (PyDict [(KStr ''points'', points)])),
       generate_object_center = (\<lambda>contents pose.
         Inr (PyArray [PyArray (map PyNum [1, 2, 0, 4, 2, 2, 0]),
                       PyArray (replicate 7 (PyNum 0))],
              PyArray [PyNum 1, PyNum 0], PyList [PyInt 7])),
       generate_anchor_box = Inr PyNone,
       generate_label = (\<lambda>boxes anchors mask. Inr (PyDict [])),
       pre_collate_batch = demo_pre_collate_batch,
       post_collate_batch = (\<lambda>labels. Inr (PyDict [])),
       downsample_lidar_minimum = Inr,
       set_order = remdups,
       reshape_poses = (\<lambda>poses. Inr (PyArray poses)) \<rparr>"

text \<open>Two agents as the loops of \<^verbatim>\<open>__getitem__\<close> read them: \<^verbatim>\<open>a\<close> at the origin,
  \<^verbatim>\<open>b\<close> ten metres along \<open>x\<close>; each with a pose under \<^verbatim>\<open>'params'\<close> and under
  \<^verbatim>\<open>'past_k'[0]\<close>.\<close>

definition demo_pose :: "real \<Rightarrow> real pyval" where
  "demo_pose x = PyList (map PyNum [x, 0, 0, 0, 0, 0])"

definition demo_agent :: "bool \<Rightarrow> real \<Rightarrow> real pyval" where
  "demo_agent ego x =
     PyDict [(KStr ''ego'', PyBool ego),
             (KStr ''params'', PyDict [(KStr ''lidar_pose'', demo_pose x)]),
             (KStr ''past_k'',
              PyDict [(KInt 0, PyDict [(KStr ''params'',
                                        PyDict [(KStr ''lidar_pose'', demo_pose x)])])])]"

definition demo_agents :: "(pykey \<times> real pyval) list" where
  "demo_agents = [(KStr ''a'', demo_agent True 0), (KStr ''b'', demo_agent False 10)]"

text \<open>What \<^verbatim>\<open>retrieve_base_data\<close> returns on the small dataset for \<open>k = 1\<close>, \<open>\<tau> = 1\<close>
  and the flat index 1.\<close>

definition demo_frame :: "string \<Rightarrow> string \<Rightarrow> real pyval" where
  "demo_frame cav t =
     PyDict [(KStr ''params'',
              PyDict [(KStr ''source'', PyStr (''d/s0/'' @ cav @ ''/'' @ t @ ''.yaml''))]),
             (KStr ''lidar_np'', PyArray []),
             (KStr ''timestamp'', PyStr t)]"

definition demo_base_data :: "(pykey \<times> real pyval) list" where
  "demo_base_data =
     [(KStr ''a'', PyDict [(KStr ''ego'', PyBool True),
                           (KStr ''past_k'', PyDict [(KInt 0, demo_frame ''a'' ''1'')]),
                           (KStr ''curr'', demo_frame ''a'' ''1'')]),
      (KStr ''b'', PyDict [(KStr ''ego'', PyBool False),
                           (KStr ''past_k'', PyDict [(KInt 0, demo_frame ''b'' ''0'')]),
                           (KStr ''curr'', demo_frame ''b'' ''1'')])]"

text \<open>A box row \<^verbatim>\<open>(x, y, z, l, w, h, yaw)\<close>.\<close>

definition demo_box :: "real \<Rightarrow> real pyval" where
  "demo_box x = PyArray (map PyNum [x, 0, 0, 4, 2, 2, 0])"



text \<open>A sample as \<^verbatim>\<open>collate_batch_train\<close> reads it, with the agent count and the
  coordinate tables of the agents as parameters, and the entries that the collation makes
  of one such sample, with the rows of the collated coordinate table as parameter.\<close>

definition demo_voxels :: "real pyval" where
  "demo_voxels = PyArray [PyArray [PyInt 0, PyInt 0, PyInt 0]]"

definition demo_sample :: "int \<Rightarrow> real pyval list \<Rightarrow> real pyval" where
  "demo_sample cav_num coords =
     PyDict [(KStr ''ego'',
       PyDict [(KStr ''object_bbx_center'', PyArray [demo_box 1]),
               (KStr ''object_bbx_mask'', PyArray [PyNum 1]),
               (KStr ''object_ids'', PyList [PyInt 7]),
               (KStr ''anchor_box'', PyNone),
               (KStr ''processed_lidar'', PyDict [(KStr ''voxel_coords'', PyList coords)]),
               (KStr ''label_dict'', PyDict []),
               (KStr ''cav_num'', PyInt cav_num),
               (KStr ''pairwise_t_matrix'', PyArray []),
               (KStr ''lidar_poses_clean'', PyArray [PyArray (map PyNum [0, 0, 0, 0, 0, 0])]),
               (KStr ''lidar_poses'', PyArray [PyArray (map PyNum [0, 0, 0, 0, 0, 0])]),
               (KStr ''sample_idx'', PyInt 3),
               (KStr ''cav_id_list'', PyList [PyStr ''a'', PyStr ''b''])])]"

definition voxel_row :: "int \<Rightarrow> real pyval" where
  "voxel_row i = PyArray [PyInt i, PyInt 0, PyInt 0, PyInt 0]"

definition demo_collated :: "int \<Rightarrow> real pyval list \<Rightarrow> (pykey \<times> real pyval) list" where
  "demo_collated cav_num rows =
     [(KStr ''object_bbx_center'', PyArray [PyArray [demo_box 1]]),
      (KStr ''object_bbx_mask'', PyArray [PyArray [PyNum 1]]),
      (KStr ''processed_lidar'', PyDict [(KStr ''voxel_coords'', PyArray rows)]),
      (KStr ''record_len'', PyArray [PyInt cav_num]),
      (KStr ''label_dict'',
       PyDict [(KStr ''pairwise_t_matrix'', PyArray [PyArray []]),
               (KStr ''record_len'', PyArray [PyInt cav_num])]),
      (KStr ''object_ids'', PyList [PyInt 7]),
      (KStr ''pairwise_t_matrix'', PyArray [PyArray []]),
      (KStr ''lidar_pose_clean'', PyArray [PyArray (map PyNum [0, 0, 0, 0, 0, 0])]),
      (KStr ''lidar_pose'', PyArray [PyArray (map PyNum [0, 0, 0, 0, 0, 0])])]"

definition demo_pp_dataset :: "real dataset" where
  "demo_pp_dataset = (demo_dataset 1 1)\<lparr>params := demo_hypes 1 1 ''PointPillarPreprocessor''\<rparr>"





section \<open>Predicates used in the statements\<close>

text \<open>An entry of the scenario database that holds at most \<^verbatim>\<open>max_cav\<close> agents, the
  first ones of a scenario folder in sorted order.\<close>

definition scenario_ok :: "filesystem \<Rightarrow> int \<Rightarrow> string list \<Rightarrow> pykey \<times> 'n pyval \<Rightarrow> bool" where
  "scenario_ok fs max_cav folders e =
     (\<exists>cavs folder. folder \<in> set folders \<and> snd e = PyDict cavs \<and>
        length cavs \<le> nat max_cav \<and>
        fst ` set cavs = KStr ` set (take (nat max_cav) (subdirs fs folder)))"

text \<open>The offset of a flat index inside the scenario that the scan finds: the index
  itself in the first scenario, the index less the previous cumulative length in a later
  one (lines 264-265).\<close>

definition scan_offset :: "int list \<Rightarrow> int \<Rightarrow> int" where
  "scan_offset lr idx =
     (let s = fst (enumerate_scan idx 0 lr None)
      in if s = 0 then idx else idx - lr ! nat (s - 1))"

text \<open>The positions that the specification's arithmetic gives for a list of agents, each
  with its ego flag.\<close>

definition spec_positions ::
  "int \<Rightarrow> int \<Rightarrow> int \<Rightarrow> (pykey \<times> bool) list \<Rightarrow> (pykey \<times> bool \<times> int \<times> int list) list" where
  "spec_positions offset tau k agents =
     map (\<lambda>(cav_id, ego).
            (cav_id, ego, spec_curr_position offset tau k ego,
             map (spec_past_position offset tau k ego) (py_range k))) agents"

text \<open>A per-agent record as \<^verbatim>\<open>retrieve_base_data\<close> builds it: exactly the keys
  \<^verbatim>\<open>'ego'\<close>, \<^verbatim>\<open>'past_k'\<close> and \<^verbatim>\<open>'curr'\<close>, in this order (lines 258-263).\<close>

definition base_record :: "'n pyval \<Rightarrow> bool" where
  "base_record v =
     (\<exists>ego pk cu. v = PyDict [(KStr ''ego'', ego), (KStr ''past_k'', pk), (KStr ''curr'', cu)])"



text \<open>
  The loop of lines 353-375 with the method that \<^verbatim>\<open>self.get_item_single_car\<close> resolves
  to as a parameter. \<open>process_loop\<close> is its instance for the method of this class; the
  general form says which records the loop hands on, whatever the method does with them.
\<close>

fun process_loop_with ::
  "('n pyval list \<Rightarrow> py_error + 'n pyval) \<Rightarrow> 'n dataset \<Rightarrow> (pykey \<times> 'n pyval) list \<Rightarrow>
   pykey \<Rightarrow> 'n pyval \<Rightarrow> int \<Rightarrow> pykey list \<Rightarrow>
   'n pyval list \<times> 'n pyval list \<times> 'n pyval list \<times> 'n pyval list \<Rightarrow>
   py_error + 'n pyval list \<times> 'n pyval list \<times> 'n pyval list \<times> 'n pyval list" where
  "process_loop_with single_car st base_data_dict ego_id ego_lidar_pose idx [] acc = Inr acc"
| "process_loop_with single_car st base_data_dict ego_id ego_lidar_pose idx (cav_id # rest)
     (object_stack, object_id_stack, processed_features, projected_lidar_stack) =
     ebind (dict_get base_data_dict cav_id) (\<lambda>selected_cav_base.
     ebind (single_car [selected_cav_base, ego_lidar_pose, PyBool (cav_id = ego_id), PyInt idx])
       (\<lambda>selected_cav_processed.
     ebind (subscript selected_cav_processed (KStr ''object_bbx_center'')) (\<lambda>boxes.
     ebind (subscript selected_cav_processed (KStr ''object_ids'')) (\<lambda>ids.
     ebind (py_iter ids) (\<lambda>id_list.
     ebind (subscript selected_cav_processed (KStr ''processed_features'')) (\<lambda>feats.
     ebind (if visualize st
            then ebind (subscript selected_cav_processed (KStr ''projected_lidar''))
                   (\<lambda>pl. Inr (projected_lidar_stack @ [pl]))
            else Inr projected_lidar_stack) (\<lambda>projected_lidar_stack'.
     process_loop_with single_car st base_data_dict ego_id ego_lidar_pose idx rest
       (object_stack @ [boxes], object_id_stack @ id_list, processed_features @ [feats],
        projected_lidar_stack'))))))))"

text \<open>A tensor of \<open>L\<close> rows of \<open>L\<close> matrices.\<close>

definition square_tensor :: "nat \<Rightarrow> 'm list list \<Rightarrow> bool" where
  "square_tensor L t = (length t = L \<and> list_all (\<lambda>r. length r = L) t)"

text \<open>The keys that \<^verbatim>\<open>collate_batch_test\<close> may add to the collated entries.\<close>

definition test_extras :: "pykey set" where
  "test_extras = {KStr ''anchor_box'', KStr ''transformation_matrix'',
                  KStr ''transformation_matrix_clean'', KStr ''sample_idx'', KStr ''cav_id_list''}"

section \<open>Basic facts\<close>

lemma ebind_simps [simp]: "ebind (Inl e) f = Inl e" "ebind (Inr x) f = f x"
  by (simp_all add: ebind_def)

lemma ebind_Inr_iff: "ebind m f = Inr y \<longleftrightarrow> (\<exists>x. m = Inr x \<and> f x = Inr y)"
  by (cases m) simp_all

lemma keys_dict_set_list:
  "map fst (dict_set d k v) = (if k \<in> fst ` set d then map fst d else map fst d @ [k])"
proof (induction d)
  case Nil
  then show ?case by simp
next
  case (Cons p d)
  have "k \<in> fst ` set d" if "(k, b) \<in> set d" for b
    using that by (metis fst_conv image_eqI)
  with Cons show ?case by (cases p) auto
qed

lemma set_dict_set: "set (dict_set d k v) \<subseteq> insert (k, v) (set d)"
  by (induction d) (auto split: if_splits)

lemma keys_dict_set: "fst ` set (dict_set d k v) = insert k (fst ` set d)"
  using arg_cong [OF keys_dict_set_list, of set d k v]
  by (auto simp del: set_map simp: set_map [symmetric])

lemma length_dict_set: "length (dict_set d k v) \<le> Suc (length d)"
  using arg_cong [OF keys_dict_set_list, of length d k v] by (simp split: if_splits)

section \<open>The index holds at most \<^verbatim>\<open>max_cav\<close> agents per scenario\<close>

lemma cav_loop_keys:
  "0 \<le> j \<Longrightarrow> fst ` set (fst (cav_loop fs ets tau k max_cav folder j cavs (scn, lr))) =
     fst ` set scn \<union> KStr ` set (take (nat (max_cav - j)) cavs)"
proof (induction cavs arbitrary: j scn lr)
  case Nil
  then show ?case by simp
next
  case (Cons c cavs)
  show ?case
  proof (cases "j > max_cav - 1")
    case True
    then show ?thesis by simp
  next
    case False
    then have "nat (max_cav - j) = Suc (nat (max_cav - (j + 1)))" by linarith
    with False Cons.prems Cons.IH [of "j + 1"] show ?thesis
      by (simp add: Let_def keys_dict_set)
  qed
qed

lemma cav_loop_length:
  "0 \<le> j \<Longrightarrow> length (fst (cav_loop fs ets tau k max_cav folder j cavs (scn, lr))) \<le>
     length scn + nat (max_cav - j)"
proof (induction cavs arbitrary: j scn lr)
  case Nil
  then show ?case by simp
next
  case (Cons c cavs)
  show ?case
  proof (cases "j > max_cav - 1")
    case True
    then show ?thesis by simp
  next
    case False
    then have e: "nat (max_cav - j) = Suc (nat (max_cav - (j + 1)))" by linarith
    define ts where
      "ts = ets (sort [path_join (path_join folder c) x.
                         x \<leftarrow> listdir fs (path_join folder c), endswith x ''.yaml''])"
    define v :: "'a pyval" where
      "v = PyDict (cav_content_of (j = 0) (path_join folder c) ts)"
    define lr1 where
      "lr1 = (if j = 0 then append_len_record lr (int (length ts) - (tau + k - 1)) else lr)"
    have step: "cav_loop fs ets tau k max_cav folder j (c # cavs) (scn, lr) =
                cav_loop fs ets tau k max_cav folder (j + 1) cavs (dict_set scn (KStr c) v, lr1)"
      using False by (simp add: Let_def v_def lr1_def ts_def)
    have "length (dict_set scn (KStr c) v) \<le> Suc (length scn)"
      by (rule length_dict_set)
    moreover from Cons.prems have "0 \<le> j + 1" by simp
    from Cons.IH [OF this, of "dict_set scn (KStr c) v" lr1]
    have "length (fst (cav_loop fs ets tau k max_cav folder (j + 1) cavs
                         (dict_set scn (KStr c) v, lr1)))
            \<le> length (dict_set scn (KStr c) v) + nat (max_cav - (j + 1))" .
    ultimately show ?thesis unfolding step e by linarith
  qed
qed

lemma cav_loop_len_record:
  "max_cav < 1 \<Longrightarrow> 0 \<le> j \<Longrightarrow>
   snd (cav_loop fs ets tau k max_cav folder j cavs (scn, lr)) = lr"
  by (cases cavs) simp_all

lemma scenario_loop_entries:
  "scenario_loop fs ets tau k max_cav i folders (db :: (pykey \<times> 'n pyval) list, lr) =
     Inr (db', lr') \<Longrightarrow>
   e \<in> set db' \<Longrightarrow> e \<in> set db \<or> scenario_ok fs max_cav folders e"
proof (induction folders arbitrary: i db lr)
  case Nil
  then show ?case by simp
next
  case (Cons f folders)
  let ?cl = "cav_loop fs ets tau k max_cav f 0 (subdirs fs f)
               ([] :: (pykey \<times> 'n pyval) list, lr)"
  obtain scn lr1 where cl: "?cl = (scn, lr1)" by (metis surj_pair)
  from Cons.prems(1) cl have run:
    "scenario_loop fs ets tau k max_cav (i + 1) folders
       (dict_set db (KInt i) (PyDict scn), lr1) = Inr (db', lr')"
    by (simp add: Let_def split: if_splits)
  from Cons.IH [OF run Cons.prems(2)]
  consider "e \<in> set (dict_set db (KInt i) (PyDict scn))" | "scenario_ok fs max_cav folders e"
    by blast
  then show ?case
  proof cases
    case 1
    with set_dict_set have "e = (KInt i, PyDict scn) \<or> e \<in> set db" by fastforce
    moreover have "scenario_ok fs max_cav (f # folders) (KInt i, PyDict scn)"
      using cav_loop_keys [of 0 fs ets tau k max_cav f "subdirs fs f"
                              "[] :: (pykey \<times> 'n pyval) list" lr]
            cav_loop_length [of 0 fs ets tau k max_cav f "subdirs fs f"
                                "[] :: (pykey \<times> 'n pyval) list" lr] cl
      by (auto simp: scenario_ok_def)
    ultimately show ?thesis by blast
  next
    case 2
    then show ?thesis by (auto simp: scenario_ok_def)
  qed
qed

lemma scenario_loop_len_record:
  "max_cav < 1 \<Longrightarrow>
   scenario_loop fs ets tau k max_cav i folders (db :: (pykey \<times> 'n pyval) list, lr) =
     Inr (db', lr') \<Longrightarrow> lr' = lr"
proof (induction folders arbitrary: i db lr)
  case Nil
  then show ?case by simp
next
  case (Cons f folders)
  let ?cl = "cav_loop fs ets tau k max_cav f 0 (subdirs fs f)
               ([] :: (pykey \<times> 'n pyval) list, lr)"
  obtain scn lr1 where cl: "?cl = (scn, lr1)" by (metis surj_pair)
  with cav_loop_len_record [of max_cav 0 fs ets tau k f "subdirs fs f"
                               "[] :: (pykey \<times> 'n pyval) list" lr] Cons.prems(1)
  have "lr1 = lr" by simp
  with Cons cl show ?case by (simp add: Let_def split: if_splits)
qed

lemma init_Inr:
  assumes "init fs ets kd p vis trn = Inr st"
  shows "\<exists>pf total. proj_first_opt p = Some pf \<and>
     scenario_loop fs ets (self_tau st) (self_k st) (self_max_cav st) 0
        (scenario_folders fs (if trn then root_dir p else validate_dir p)) ([], []) =
       Inr (scenario_database st, len_record st) \<and>
     py_index (len_record st) (- 1) = Inr total \<and>
     self_max_cav st = (case max_cav_opt p of None \<Rightarrow> 5 | Some m \<Rightarrow> m) \<and>
     self_tau st = (case time_delay p of Some v \<Rightarrow> v | None \<Rightarrow> 0) \<and>
     self_k st = (case num_sweep_frames p of Some v \<Rightarrow> v | None \<Rightarrow> 0) \<and> params st = p"
  using assms
  by (auto simp: init_def Let_def ebind_Inr_iff split: option.splits if_splits)

lemma demo_init_eq: "demo_init k tau = Inr (demo_dataset k tau)"
  by (simp add: demo_init_def init_def demo_hypes_def demo_fs_def scenario_folders_def
      subdirs_def path_join_def timestamp_stems_def endswith_def cav_content_of_def
      frame_entry_def append_len_record_def py_index_def demo_db_def demo_dataset_def Let_def)

text \<open>
  C10. After a construction that succeeds, every scenario of the scenario database is a
  dictionary of at most \<^verbatim>\<open>max_cav\<close> agents, and its keys are the first \<^verbatim>\<open>max_cav\<close>
  agent directories of some scenario folder in sorted order: the agents beyond them are
  not recorded, and the construction does not fail because of them.
\<close>

theorem init_max_cav:
  assumes "init fs ets kd p vis trn = Inr st"
    and "(key, scn) \<in> set (scenario_database st)"
  shows "\<exists>cavs folder.
           folder \<in> set (scenario_folders fs (if trn then root_dir p else validate_dir p)) \<and>
           scn = PyDict cavs \<and> int (length cavs) \<le> self_max_cav st \<and>
           fst ` set cavs = KStr ` set (take (nat (self_max_cav st)) (subdirs fs folder))"
proof -
  from init_Inr [OF assms(1)] obtain total where
    sl: "scenario_loop fs ets (self_tau st) (self_k st) (self_max_cav st) 0
           (scenario_folders fs (if trn then root_dir p else validate_dir p)) ([], []) =
         Inr (scenario_database st, len_record st)"
    and lr: "py_index (len_record st) (- 1) = Inr total" by blast
  have "\<not> self_max_cav st < 1"
  proof
    assume "self_max_cav st < 1"
    from scenario_loop_len_record [OF this sl] lr show False by (simp add: py_index_def)
  qed
  moreover from scenario_loop_entries [OF sl assms(2)]
  have "scenario_ok fs (self_max_cav st)
          (scenario_folders fs (if trn then root_dir p else validate_dir p)) (key, scn)"
    by simp
  ultimately show ?thesis unfolding scenario_ok_def by fastforce
qed

text \<open>The witness: the tree has three agents, \<^verbatim>\<open>max_cav\<close> is 2, the construction
  succeeds and records \<^verbatim>\<open>a\<close> and \<^verbatim>\<open>b\<close>.\<close>

theorem init_max_cav_witness:
  "demo_init 3 1 = Inr (demo_dataset 3 1) \<and>
   subdirs demo_fs ''d/s0'' = [''a'', ''b'', ''c''] \<and>
   (\<exists>cavs folder. folder \<in> set (scenario_folders demo_fs ''d'') \<and>
      snd (hd demo_db) = PyDict cavs \<and> int (length cavs) \<le> 2 \<and>
      fst ` set cavs = KStr ` set (take 2 (subdirs demo_fs folder)))"
proof -
  have h1: "init demo_fs timestamp_stems False (demo_hypes 3 1 ''SpVoxelPreprocessor'')
              False True = Inr (demo_dataset 3 1)"
    using demo_init_eq [of 3 1] by (simp add: demo_init_def)
  have h2: "(KInt 0, snd (hd demo_db)) \<in> set (scenario_database (demo_dataset 3 1))"
    by (simp add: demo_dataset_def demo_db_def)
  have h3: "subdirs demo_fs ''d/s0'' = [''a'', ''b'', ''c'']"
    by (simp add: subdirs_def demo_fs_def path_join_def)
  from init_max_cav [OF h1 h2] h3 show ?thesis
    by (simp add: demo_init_eq demo_dataset_def demo_hypes_def)
qed


section \<open>The positions that \<^verbatim>\<open>retrieve_base_data\<close> computes\<close>

lemma enumerate_scan_found:
  "lr \<noteq> [] \<Longrightarrow> idx < last lr \<Longrightarrow>
   \<exists>n < length lr. enumerate_scan idx p lr iv = (p + int n, Some (p + int n)) \<and> idx < lr ! n \<and>
      (\<forall>m < n. \<not> idx < lr ! m)"
proof (induction lr arbitrary: p iv)
  case Nil
  then show ?case by simp
next
  case (Cons ele rest)
  show ?case
  proof (cases "idx < ele")
    case True
    then show ?thesis by (intro exI [of _ 0]) simp
  next
    case False
    with Cons.prems have ne: "rest \<noteq> []" and l: "idx < last rest" by (auto split: if_splits)
    from Cons.IH [OF ne l, of "p + 1" "Some p"] obtain n where
      n: "n < length rest" "enumerate_scan idx (p + 1) rest (Some p) = (p + 1 + int n, Some (p + 1 + int n))"
         "idx < rest ! n" "\<forall>m < n. \<not> idx < rest ! m" by blast
    show ?thesis
    proof (intro exI [of _ "Suc n"] conjI allI impI)
      show "Suc n < length (ele # rest)" using n(1) by simp
      show "enumerate_scan idx p (ele # rest) iv = (p + int (Suc n), Some (p + int (Suc n)))"
        using False n(2) by (simp add: algebra_simps)
      show "idx < (ele # rest) ! Suc n" using n(3) by simp
      show "\<not> idx < (ele # rest) ! m" if "m < Suc n" for m
        using that False n(4) by (cases m) auto
    qed
  qed
qed

lemma intra_offset_first: "intra_offset lr 0 x = Inr x"
  by (simp add: intra_offset_def)

lemma intra_offset_later:
  "0 < n \<Longrightarrow> n < length lr \<Longrightarrow> intra_offset lr (int n) x = Inr (x - lr ! (n - 1))"
  by (auto simp: intra_offset_def py_index_def nat_diff_distrib)

lemma scan_intra_offset:
  assumes "lr \<noteq> []" "idx < last lr"
  shows "intra_offset lr (fst (enumerate_scan idx 0 lr None)) x = Inr (x - idx + scan_offset lr idx)"
proof -
  from enumerate_scan_found [OF assms, of 0 None] obtain n where
    n: "n < length lr" "enumerate_scan idx 0 lr None = (int n, Some (int n))" by auto
  show ?thesis
  proof (cases n)
    case 0
    with n show ?thesis by (simp add: scan_offset_def intra_offset_first)
  next
    case (Suc m)
    with n intra_offset_later [of n lr x] show ?thesis
      by (simp add: scan_offset_def Let_def)
  qed
qed

lemma past_loop_trace:
  assumes "past_loop io lr s idx k temp c is (iv, pk, tr) = Inr (iv', pk', tr')"
    and "\<And>x. intra_offset lr s x = Inr (x - idx + off)"
  shows "tr' = tr @ map (\<lambda>i. off + k - 1 + temp) is \<and>
         iv' = (if is = [] then iv else Some (last is))"
  using assms(1)
proof (induction "is" arbitrary: iv pk tr)
  case Nil
  then show ?case by simp
next
  case (Cons i rest)
  from Cons.prems obtain frame where
    "past_loop io lr s idx k temp c rest
       (Some i, dict_set pk (KInt i) frame, tr @ [past_timestamp_index (i + off) k i temp]) =
     Inr (iv', pk', tr')"
    by (auto simp: assms(2) Let_def ebind_Inr_iff)
  from Cons.IH [OF this] show ?case
    by (simp add: past_timestamp_index_def)
qed

lemma retrieve_cav_trace:
  assumes "retrieve_cav io lr s idx tau k c iv = Inr (iv', d, is_ego, cix, pixs)"
    and "\<And>x. intra_offset lr s x = Inr (x - idx + off)"
  shows "\<exists>i. iv = Some i \<and> cix = off + i + tau + k - 1 \<and>
           pixs = replicate (nat k) (off + k - 1 + (if is_ego then tau else 0)) \<and>
           iv' = Some (if 0 < k then k - 1 else i)"
proof -
  from assms(1) obtain i where i: "iv = Some i"
    by (cases iv) (auto simp: retrieve_cav_def ebind_Inr_iff)
  from assms(1) i obtain pk where
    pl: "past_loop io lr s idx k (if is_ego then tau else 0) c (py_range k) (Some i, [], []) =
           Inr (iv', pk, pixs)"
    and c: "cix = curr_timestamp_index (i + off) tau k"
    by (auto simp: retrieve_cav_def ebind_Inr_iff assms(2) Let_def)
  from past_loop_trace [OF pl assms(2)]
  have "pixs = map (\<lambda>i. off + k - 1 + (if is_ego then tau else 0)) (py_range k)"
    and iv': "iv' = (if py_range k = [] then Some i else Some (last (py_range k)))" by simp_all
  moreover have "py_range k = [] \<longleftrightarrow> \<not> 0 < k" by (auto simp: py_range_def)
  moreover have "last (py_range k) = k - 1" if "0 < k"
  proof -
    from that have "[0 ..< nat k] = [0 ..< nat k - 1] @ [nat k - 1]"
      by (metis Suc_diff_1 upt_Suc_append zero_le zero_less_nat_eq)
    with that show ?thesis by (simp add: py_range_def)
  qed
  ultimately show ?thesis using i c
    by (auto simp: curr_timestamp_index_def py_range_def map_replicate_const)
qed

lemma retrieve_loop_trace:
  assumes "retrieve_loop io lr s idx tau k its (Some i0, data, tr) = Inr (data', tr')"
    and "\<And>x. intra_offset lr s x = Inr (x - idx + off)"
  shows "\<exists>new. tr' = tr @ new \<and> length new = length its \<and>
           (\<forall>n < length its. \<exists>is_ego.
              new ! n = (fst (its ! n), is_ego,
                         off + (if n = 0 then i0 else if 0 < k then k - 1 else i0) + tau + k - 1,
                         replicate (nat k) (off + k - 1 + (if is_ego then tau else 0))))"
  using assms(1)
proof (induction its arbitrary: i0 data tr)
  case Nil
  then show ?case by simp
next
  case (Cons a rest)
  obtain cav_id c where a: "a = (cav_id, c)" by (cases a)
  from Cons.prems a obtain iv' d is_ego cix pixs where
    rc: "retrieve_cav io lr s idx tau k c (Some i0) = Inr (iv', d, is_ego, cix, pixs)"
    and rl: "retrieve_loop io lr s idx tau k rest
               (iv', dict_set data cav_id d, tr @ [(cav_id, is_ego, cix, pixs)]) = Inr (data', tr')"
    by (auto simp: ebind_Inr_iff)
  from retrieve_cav_trace [OF rc assms(2)] have
    cix: "cix = off + i0 + tau + k - 1"
    and pixs: "pixs = replicate (nat k) (off + k - 1 + (if is_ego then tau else 0))"
    and iv': "iv' = Some (if 0 < k then k - 1 else i0)" by auto
  from Cons.IH [OF rl [unfolded iv']] obtain new where
    new: "tr' = (tr @ [(cav_id, is_ego, cix, pixs)]) @ new" "length new = length rest"
      "\<forall>n < length rest. \<exists>is_ego.
         new ! n = (fst (rest ! n), is_ego,
            off + (if n = 0 then (if 0 < k then k - 1 else i0) else if 0 < k then k - 1 else (if 0 < k then k - 1 else i0)) + tau + k - 1,
            replicate (nat k) (off + k - 1 + (if is_ego then tau else 0)))"
    by blast
  show ?case
  proof (intro exI [of _ "(cav_id, is_ego, cix, pixs) # new"] conjI allI impI)
    show "tr' = tr @ (cav_id, is_ego, cix, pixs) # new" using new(1) by simp
    show "length ((cav_id, is_ego, cix, pixs) # new) = length (a # rest)" using new(2) by simp
    fix n assume n: "n < length (a # rest)"
    show "\<exists>is_ego'. ((cav_id, is_ego, cix, pixs) # new) ! n =
            (fst ((a # rest) ! n), is_ego',
             off + (if n = 0 then i0 else if 0 < k then k - 1 else i0) + tau + k - 1,
             replicate (nat k) (off + k - 1 + (if is_ego' then tau else 0)))"
    proof (cases n)
      case 0
      then show ?thesis using a cix pixs by auto
    next
      case (Suc m)
      with n new(3) have "\<exists>is_ego. new ! m = (fst (rest ! m), is_ego,
            off + (if m = 0 then (if 0 < k then k - 1 else i0) else if 0 < k then k - 1 else (if 0 < k then k - 1 else i0)) + tau + k - 1,
            replicate (nat k) (off + k - 1 + (if is_ego then tau else 0)))" by simp
      then obtain e where "new ! m = (fst (rest ! m), e,
            off + (if 0 < k then k - 1 else i0) + tau + k - 1,
            replicate (nat k) (off + k - 1 + (if e then tau else 0)))"
        by (cases "m = 0"; cases "0 < k") auto
      then show ?thesis using Suc by (intro exI [of _ e]) simp
    qed
  qed
qed

lemma resolved_positions_trace:
  assumes "len_record st \<noteq> []" "idx < last (len_record st)"
    and "resolved_positions st io idx = Inr tr"
  shows "\<forall>n < length tr. \<exists>cav_id is_ego.
              tr ! n = (cav_id, is_ego,
                 scan_offset (len_record st) idx +
                   (if n = 0 then fst (enumerate_scan idx 0 (len_record st) None)
                    else if 0 < self_k st then self_k st - 1
                    else fst (enumerate_scan idx 0 (len_record st) None)) +
                   self_tau st + self_k st - 1,
                 replicate (nat (self_k st))
                   (scan_offset (len_record st) idx + self_k st - 1 +
                      (if is_ego then self_tau st else 0)))"
proof -
  from enumerate_scan_found [OF assms(1,2), of 0 None] obtain s where
    s: "enumerate_scan idx 0 (len_record st) None = (s, Some s)" by auto
  from assms(3) s obtain its data where
    rl: "retrieve_loop io (len_record st) s idx (self_tau st) (self_k st) its (Some s, [], []) =
           Inr (data, tr)"
    by (auto simp: resolved_positions_def retrieve_base_data_trace_def ebind_Inr_iff)
  have io: "intra_offset (len_record st) s x = Inr (x - idx + scan_offset (len_record st) idx)"
    for x using scan_intra_offset [OF assms(1,2), of x] s by simp
  from retrieve_loop_trace [OF rl io] have
    "length tr = length its \<and>
       (\<forall>n < length its. \<exists>is_ego.
          tr ! n = (fst (its ! n), is_ego,
             scan_offset (len_record st) idx +
               (if n = 0 then s else if 0 < self_k st then self_k st - 1 else s) +
               self_tau st + self_k st - 1,
             replicate (nat (self_k st))
               (scan_offset (len_record st) idx + self_k st - 1 +
                  (if is_ego then self_tau st else 0))))"
    by auto
  then show ?thesis unfolding s fst_conv by metis
qed

lemma demo_positions_3_1:
  "resolved_positions (demo_dataset 3 1) demo_io 0 =
     Inr [(KStr ''a'', True, 3, [3, 3, 3]), (KStr ''b'', False, 5, [2, 2, 2])]"
  by (simp add: resolved_positions_def retrieve_base_data_trace_def demo_dataset_def demo_db_def
      retrieve_cav_def load_frame_def intra_offset_def curr_timestamp_index_def
      past_timestamp_index_def py_index_def py_range_def frame_entry_def demo_io_def
      path_join_def upt_rec)

lemma demo_positions_1_1:
  "resolved_positions (demo_dataset 1 1) demo_io 1 =
     Inr [(KStr ''a'', True, 2, [2]), (KStr ''b'', False, 2, [1])]"
  by (simp add: resolved_positions_def retrieve_base_data_trace_def demo_dataset_def demo_db_def
      retrieve_cav_def load_frame_def intra_offset_def curr_timestamp_index_def
      past_timestamp_index_def py_index_def py_range_def frame_entry_def demo_io_def
      path_join_def upt_rec)

text \<open>
  C1, as the code has it by design. For a valid flat index on which
  \<^verbatim>\<open>retrieve_base_data\<close> returns, with \<open>offset\<close> the offset inside the scenario found:
  every agent has \<open>k\<close> past positions; the most recent past frame is at
  \<open>offset + (k - 1) + \<tau>\<close> for an agent flagged ego and at \<open>offset + (k - 1)\<close> for any
  other; the current frame of the first agent of the first scenario is at
  \<open>offset + \<tau> + k - 1\<close>, and so is the current frame of a later agent when \<open>k = 1\<close>: the
  added \<open>\<tau>\<close> of the current frame is not reserved to the ego.
\<close>

theorem retrieve_positions_by_design:
  assumes "len_record st \<noteq> []" and "0 \<le> idx" and "idx < last (len_record st)"
    and "resolved_positions st io idx = Inr tr"
    and "n < length tr" and "tr ! n = (cav_id, is_ego, cix, pixs)"
  shows "length pixs = nat (self_k st) \<and>
         (0 < self_k st \<longrightarrow>
            pixs ! 0 = scan_offset (len_record st) idx + (self_k st - 1) +
                       (if is_ego then self_tau st else 0)) \<and>
         (n = 0 \<and> fst (enumerate_scan idx 0 (len_record st) None) = 0 \<longrightarrow>
            cix = scan_offset (len_record st) idx + self_tau st + self_k st - 1) \<and>
         (0 < n \<and> self_k st = 1 \<longrightarrow>
            cix = scan_offset (len_record st) idx + self_tau st + self_k st - 1)"
proof -
  from resolved_positions_trace [OF assms(1,3,4)] assms(5) obtain c e where
    "tr ! n = (c, e,
       scan_offset (len_record st) idx +
         (if n = 0 then fst (enumerate_scan idx 0 (len_record st) None)
          else if 0 < self_k st then self_k st - 1
          else fst (enumerate_scan idx 0 (len_record st) None)) +
         self_tau st + self_k st - 1,
       replicate (nat (self_k st))
         (scan_offset (len_record st) idx + self_k st - 1 + (if e then self_tau st else 0)))"
    by metis
  with assms(6) have e: "e = is_ego"
    and cix: "cix = scan_offset (len_record st) idx +
         (if n = 0 then fst (enumerate_scan idx 0 (len_record st) None)
          else if 0 < self_k st then self_k st - 1
          else fst (enumerate_scan idx 0 (len_record st) None)) +
         self_tau st + self_k st - 1"
    and pixs: "pixs = replicate (nat (self_k st))
         (scan_offset (len_record st) idx + self_k st - 1 + (if e then self_tau st else 0))"
    by auto
  show ?thesis using cix by (auto simp: pixs e)
qed

text \<open>The witness: \<open>k = 1\<close>, \<open>\<tau> = 1\<close>, flat index 1 of the small dataset, for the ego
  \<^verbatim>\<open>a\<close> (agent 0) and for \<^verbatim>\<open>b\<close> (agent 1).\<close>

theorem retrieve_positions_by_design_witness:
  "resolved_positions (demo_dataset 1 1) demo_io 1 =
     Inr [(KStr ''a'', True, 2, [2]), (KStr ''b'', False, 2, [1])] \<and>
   scan_offset (len_record (demo_dataset 1 1)) 1 = 1 \<and>
   [2] ! 0 = scan_offset (len_record (demo_dataset 1 1)) 1 + (1 - 1) + (1::int) \<and>
   [1] ! 0 = scan_offset (len_record (demo_dataset 1 1)) 1 + (1 - 1) + (0::int) \<and>
   (2::int) = scan_offset (len_record (demo_dataset 1 1)) 1 + 1 + 1 - 1"
proof -
  have lr: "len_record (demo_dataset 1 1) \<noteq> []" "(0::int) \<le> 1"
    "1 < last (len_record (demo_dataset 1 1))"
    by (simp_all add: demo_dataset_def)
  have sc: "fst (enumerate_scan 1 0 (len_record (demo_dataset 1 1)) None) = 0"
    by (simp add: demo_dataset_def)
  have k: "self_k (demo_dataset 1 1) = 1" "self_tau (demo_dataset 1 1) = 1"
    by (simp_all add: demo_dataset_def)
  note run = demo_positions_1_1
  have a: "[(KStr ''a'', True, 2, [2]), (KStr ''b'', False, 2, [1])] ! 0 =
             (KStr ''a'', True, 2::int, [2::int])"
    and b: "[(KStr ''a'', True, 2, [2]), (KStr ''b'', False, 2, [1])] ! 1 =
             (KStr ''b'', False, 2::int, [1::int])"
    by simp_all
  from retrieve_positions_by_design [OF lr run _ a] retrieve_positions_by_design [OF lr run _ b]
  show ?thesis using run sc k by (simp add: scan_offset_def)
qed

text \<open>
  C1 as the specification states it fails: with \<open>k = 3\<close> and \<open>\<tau> = 1\<close>, at the valid
  flat index 0, the code looks up position 3 for each past frame of the ego and position
  5 for the current frame of the other agent, where the specification's arithmetic gives
  2, 1, 0 and 2.
\<close>

theorem retrieve_positions_counterexample:
  "len_record (demo_dataset 3 1) = [2] \<and>
   scan_offset (len_record (demo_dataset 3 1)) 0 = 0 \<and>
   resolved_positions (demo_dataset 3 1) demo_io 0 =
     Inr [(KStr ''a'', True, 3, [3, 3, 3]), (KStr ''b'', False, 5, [2, 2, 2])] \<and>
   spec_positions 0 1 3 [(KStr ''a'', True), (KStr ''b'', False)] =
     [(KStr ''a'', True, 3, [2, 1, 0]), (KStr ''b'', False, 2, [3, 2, 1])] \<and>
   resolved_positions (demo_dataset 3 1) demo_io 0 \<noteq>
     Inr (spec_positions (scan_offset (len_record (demo_dataset 3 1)) 0) 1 3
            [(KStr ''a'', True), (KStr ''b'', False)])"
proof -
  have sp: "spec_positions 0 1 3 [(KStr ''a'', True), (KStr ''b'', False)] =
     [(KStr ''a'', True, 3, [2, 1, 0]), (KStr ''b'', False, 2, [3, 2, 1])]"
    by (simp add: spec_positions_def spec_curr_position_def spec_past_position_def
        py_range_def upt_rec)
  have so: "scan_offset (len_record (demo_dataset 3 1)) 0 = 0"
    by (simp add: scan_offset_def demo_dataset_def)
  show ?thesis unfolding so sp demo_positions_3_1
    by (simp add: demo_dataset_def)
qed

text \<open>
  C2 on the code. The dataset is built by \<^verbatim>\<open>__init__\<close> from two agents of five
  frames each. With \<open>k = 3\<close>, \<open>\<tau> = 1\<close> the table is \<open>[2]\<close>, and the valid flat index 1
  makes the lookup of the second agent's current frame run past the end of its entries.
  With \<open>k = 1\<close>, \<open>\<tau> = 0\<close> the table is \<open>[5]\<close>, and the valid flat index 0 selects
  position 0, the entry \<^verbatim>\<open>'ego'\<close>, whose value is not a frame record.
\<close>

theorem retrieve_out_of_range:
  "demo_init 3 1 = Inr (demo_dataset 3 1) \<and> len_record (demo_dataset 3 1) = [2] \<and>
   retrieve_base_data (demo_dataset 3 1) demo_io 1 = Inl IndexError \<and>
   demo_init 1 0 = Inr (demo_dataset 1 0) \<and> len_record (demo_dataset 1 0) = [5] \<and>
   retrieve_base_data (demo_dataset 1 0) demo_io 0 = Inl TypeError"
proof -
  have "retrieve_base_data (demo_dataset 3 1) demo_io 1 = Inl IndexError"
    by (simp add: retrieve_base_data_def retrieve_base_data_trace_def demo_dataset_def demo_db_def
      retrieve_cav_def load_frame_def intra_offset_def curr_timestamp_index_def
      past_timestamp_index_def py_index_def py_range_def frame_entry_def demo_io_def
      path_join_def upt_rec)
  moreover have "retrieve_base_data (demo_dataset 1 0) demo_io 0 = Inl TypeError"
    by (simp add: retrieve_base_data_def retrieve_base_data_trace_def demo_dataset_def demo_db_def
      retrieve_cav_def load_frame_def intra_offset_def curr_timestamp_index_def
      past_timestamp_index_def py_index_def py_range_def frame_entry_def demo_io_def
      path_join_def upt_rec)
  ultimately show ?thesis by (simp add: demo_init_eq) (simp add: demo_dataset_def)
qed


section \<open>\<^verbatim>\<open>__getitem__\<close> never returns a sample\<close>

lemma base_record_no_params: "base_record v \<Longrightarrow> subscript v (KStr ''params'') = Inl KeyError"
  by (auto simp: base_record_def)

lemma retrieve_cav_shape:
  "retrieve_cav io lr s idx tau k c iv = Inr (iv', d, e, cix, pixs) \<Longrightarrow> base_record d"
  by (cases iv) (auto simp: retrieve_cav_def ebind_Inr_iff base_record_def Let_def)

lemma retrieve_loop_shape:
  "retrieve_loop io lr s idx tau k its (iv, data, tr) = Inr (data', tr') \<Longrightarrow>
   \<forall>e \<in> set data. base_record (snd e) \<Longrightarrow> \<forall>e \<in> set data'. base_record (snd e)"
proof (induction its arbitrary: iv data tr)
  case Nil
  then show ?case by simp
next
  case (Cons a rest)
  obtain cav_id c where a: "a = (cav_id, c)" by (cases a)
  from Cons.prems(1) a obtain iv' d is_ego cix pixs where
    rc: "retrieve_cav io lr s idx tau k c iv = Inr (iv', d, is_ego, cix, pixs)"
    and rl: "retrieve_loop io lr s idx tau k rest
               (iv', dict_set data cav_id d, tr @ [(cav_id, is_ego, cix, pixs)]) = Inr (data', tr')"
    by (auto simp: ebind_Inr_iff)
  have "\<forall>e \<in> set (dict_set data cav_id d). base_record (snd e)"
    using set_dict_set [of data cav_id d] retrieve_cav_shape [OF rc] Cons.prems(2) by auto
  from Cons.IH [OF rl this] show ?case .
qed

lemma retrieve_base_data_shape:
  assumes "retrieve_base_data st io idx = Inr data"
  shows "\<forall>e \<in> set data. base_record (snd e)"
proof -
  from assms obtain s iv its tr where
    "retrieve_loop io (len_record st) s idx (self_tau st) (self_k st) its (iv, [], []) = Inr (data, tr)"
    by (auto simp: retrieve_base_data_def retrieve_base_data_trace_def ebind_Inr_iff
        split: prod.splits)
  from retrieve_loop_shape [OF this] show ?thesis by simp
qed

lemma find_ego_loop_shaped:
  "\<forall>e \<in> set data. base_record (snd e) \<Longrightarrow>
   (\<exists>err. find_ego_loop data cv = Inl err) \<or> (\<exists>cv'. find_ego_loop data cv = Inr (cv', None))"
proof (induction data arbitrary: cv)
  case Nil
  then show ?case by simp
next
  case (Cons a rest)
  obtain cav_id c where a: "a = (cav_id, c)" by (cases a)
  with Cons.prems obtain ego pk cu where
    c: "c = PyDict [(KStr ''ego'', ego), (KStr ''past_k'', pk), (KStr ''curr'', cu)]"
    by (auto simp: base_record_def)
  show ?case
  proof (cases "truthy ego")
    case (Inl err)
    then show ?thesis by (simp add: a c)
  next
    case (Inr b)
    show ?thesis
    proof (cases b)
      case True
      with Inr show ?thesis by (simp add: a c)
    next
      case False
      with Inr Cons.IH [of "Some cav_id"] Cons.prems show ?thesis by (simp add: a c)
    qed
  qed
qed

lemma find_ego_fails:
  assumes "\<forall>e \<in> set data. base_record (snd e)"
  shows "\<exists>err. find_ego data = Inl err"
proof -
  from find_ego_loop_shaped [OF assms, of None]
  consider err where "find_ego_loop data None = Inl err"
    | cv' where "find_ego_loop data None = Inr (cv', None)" by blast
  then show ?thesis
  proof cases
    case 1
    then show ?thesis by (simp add: find_ego_def)
  next
    case 2
    then show ?thesis
      by (cases cv'; cases "py_index (map fst data) 0") (auto simp: find_ego_def)
  qed
qed

lemma dict_get_key: "k \<in> fst ` set d \<Longrightarrow> \<exists>v. dict_get d k = Inr v"
proof (induction d)
  case Nil
  then show ?case by simp
next
  case (Cons p d)
  then show ?case by (cases p) (cases "fst p = k"; force)
qed

lemma process_loop_arity:
  "cav_id \<in> fst ` set base \<Longrightarrow>
   process_loop ar ext st base ego_id ego_lidar_pose idx (cav_id # rest) acc = Inl TypeError"
proof -
  assume "cav_id \<in> fst ` set base"
  then have "\<exists>v. dict_get base cav_id = Inr v" by (rule dict_get_key)
  then show ?thesis by (cases acc) auto
qed

lemma demo_retrieve_1_1: "retrieve_base_data (demo_dataset 1 1) demo_io 1 = Inr demo_base_data"
  by (simp add: retrieve_base_data_def retrieve_base_data_trace_def demo_dataset_def demo_db_def
      retrieve_cav_def load_frame_def intra_offset_def curr_timestamp_index_def
      past_timestamp_index_def py_index_def py_range_def frame_entry_def demo_io_def
      path_join_def upt_rec demo_base_data_def demo_frame_def)

text \<open>
  C9. For every flat index \<^verbatim>\<open>__getitem__\<close> raises. Whatever \<^verbatim>\<open>retrieve_base_data\<close>
  returns has, per agent, exactly the keys \<^verbatim>\<open>'ego'\<close>, \<^verbatim>\<open>'past_k'\<close>, \<^verbatim>\<open>'curr'\<close>, so
  \<^verbatim>\<open>cav_content['params']\<close> is a \<^verbatim>\<open>KeyError\<close> and the search for the ego with its
  assertions (lines 315-327) never gets through; and the call of
  \<^verbatim>\<open>get_item_single_car\<close> with four arguments is a \<^verbatim>\<open>TypeError\<close>, so the loop over
  the retained agents fails at its first agent.
\<close>

theorem getitem_always_raises:
  "(\<exists>err. getitem ar ext io st idx = Inl err) \<and>
   (\<forall>data. retrieve_base_data st io idx = Inr data \<longrightarrow>
      (\<forall>e \<in> set data. base_record (snd e) \<and> subscript (snd e) (KStr ''params'') = Inl KeyError) \<and>
      (\<exists>err. find_ego data = Inl err)) \<and>
   call_get_item_single_car ar ext st [selected_cav_base, ego_lidar_pose, flag, i] = Inl TypeError \<and>
   (cav_id \<in> fst ` set base \<longrightarrow>
      process_loop ar ext st base ego_id ego_lidar_pose idx (cav_id # rest) acc = Inl TypeError)"
proof -
  have 2: "(\<forall>e \<in> set data. base_record (snd e) \<and> subscript (snd e) (KStr ''params'') = Inl KeyError) \<and>
      (\<exists>err. find_ego data = Inl err)" if "retrieve_base_data st io idx = Inr data" for data
    using retrieve_base_data_shape [OF that] find_ego_fails base_record_no_params by blast
  have 1: "\<exists>err. getitem ar ext io st idx = Inl err"
  proof (cases "retrieve_base_data st io idx")
    case (Inl err)
    then show ?thesis by (simp add: getitem_def)
  next
    case (Inr data)
    from 2 [OF this] obtain err where "find_ego data = Inl err" by blast
    with Inr show ?thesis by (simp add: getitem_def)
  qed
  from 1 2 process_loop_arity show ?thesis by (simp (no_asm_simp)) blast
qed


text \<open>The witness: on the small dataset the retrieval succeeds, the ego \<^verbatim>\<open>a\<close> comes
  first, and the read of its \<^verbatim>\<open>'params'\<close> raises \<^verbatim>\<open>KeyError\<close>.\<close>

theorem getitem_always_raises_witness:
  "retrieve_base_data (demo_dataset 1 1) demo_io 1 = Inr demo_base_data \<and>
   find_ego demo_base_data = Inl KeyError \<and>
   getitem demo_arith demo_ext demo_io (demo_dataset 1 1) 1 = Inl KeyError \<and>
   KStr ''a'' \<in> fst ` set demo_base_data \<and>
   process_loop demo_arith demo_ext (demo_dataset 1 1) demo_base_data (KStr ''a'') (demo_pose 0)
     1 [KStr ''a''] ([], [], [], []) = Inl TypeError"
proof -
  have fe: "find_ego demo_base_data = Inl KeyError"
    by (simp add: find_ego_def demo_base_data_def)
  have k: "KStr ''a'' \<in> fst ` set demo_base_data"
    by (simp add: demo_base_data_def)
  from getitem_always_raises [where ar = demo_arith and ext = demo_ext and io = demo_io
         and st = "demo_dataset 1 1" and idx = 1 and cav_id = "KStr ''a''"
         and base = demo_base_data and ego_id = "KStr ''a''" and ego_lidar_pose = "demo_pose 0"
         and rest = "[]" and acc = "([], [], [], [])"]
  show ?thesis using demo_retrieve_1_1 fe k by (simp add: getitem_def)
qed


section \<open>The communication-range filter\<close>






lemma process_loop_is_with:
  "process_loop ar ext st d ego_id ego idx cil acc =
   process_loop_with (call_get_item_single_car ar ext st) st d ego_id ego idx cil acc"
proof (induction cil arbitrary: acc)
  case Nil
  then show ?case by simp
next
  case (Cons c rest)
  obtain a1 a2 a3 a4 where acc: "acc = (a1, a2, a3, a4)" by (cases acc)
  show ?case unfolding acc process_loop.simps process_loop_with.simps
    by (intro arg_cong2 [where f = ebind] refl ext) (simp add: Cons.IH)
qed












section \<open>Merging the objects of the agents\<close>

lemma map_rows_Inr_iff:
  "map_rows f xs = Inr ys \<longleftrightarrow> list_all2 (\<lambda>x y. f x = Inr y) xs ys"
proof (induction xs arbitrary: ys)
  case Nil
  then show ?case by auto
next
  case (Cons x xs)
  show ?case by (cases ys) (auto simp: ebind_Inr_iff Cons.IH)
qed

lemma list_index_first:
  "x \<in> set xs \<Longrightarrow>
   \<exists>n. list_index xs x = Inr n \<and> n < length xs \<and> xs ! n = x \<and> (\<forall>m < n. xs ! m \<noteq> x)"
proof (induction xs)
  case Nil
  then show ?case by simp
next
  case (Cons y ys)
  show ?case
  proof (cases "y = x")
    case True
    then show ?thesis by simp
  next
    case False
    with Cons obtain n where n: "list_index ys x = Inr n" "n < length ys" "ys ! n = x"
      "\<forall>m < n. ys ! m \<noteq> x" by auto
    have "\<forall>m < Suc n. (y # ys) ! m \<noteq> x"
    proof (intro allI impI)
      fix m assume "m < Suc n"
      with n(4) False show "(y # ys) ! m \<noteq> x" by (cases m) auto
    qed
    with False n show ?thesis by simp
  qed
qed

lemma unique_indices_exist:
  assumes "set us \<subseteq> set ids"
  shows "\<exists>ui. map_rows (list_index ids) us = Inr ui \<and> map ((!) ids) ui = us \<and>
              (\<forall>i \<in> set ui. i < length ids \<and> (\<forall>j < i. ids ! j \<noteq> ids ! i))"
  using assms
proof (induction us)
  case Nil
  then show ?case by simp
next
  case (Cons u us)
  then obtain ui where ui: "map_rows (list_index ids) us = Inr ui" "map ((!) ids) ui = us"
    "\<forall>i \<in> set ui. i < length ids \<and> (\<forall>j < i. ids ! j \<noteq> ids ! i)" by auto
  from Cons.prems have "u \<in> set ids" by simp
  from list_index_first [OF this] obtain n where
    n: "list_index ids u = Inr n" "n < length ids" "ids ! n = u" "\<forall>m < n. ids ! m \<noteq> u" by blast
  show ?case
    by (rule exI [of _ "n # ui"]) (use ui n in auto)
qed

lemma take_rows_in_range:
  "\<forall>i \<in> set ui. i < length rows \<Longrightarrow> take_rows rows ui = Inr (map ((!) rows) ui)"
  by (simp add: take_rows_def map_rows_Inr_iff list_all2_conv_all_nth py_index_def)

text \<open>
  C4, as the code has it. Let the set of ids be iterated once per distinct id, and let
  every stacked box row have its id. The rows kept are those at the first position of each
  distinct id. When the number of distinct ids is at most \<^verbatim>\<open>max_num\<close>, the result is
  these rows followed by zero rows up to \<^verbatim>\<open>max_num\<close>, with a mask of ones for exactly
  the kept rows. When it is larger (and not 1), line 416 raises \<^verbatim>\<open>ValueError\<close>: no
  object is dropped.
\<close>

theorem merge_objects_first_seen:
  assumes "distinct (set_order ext ids)" and "set (set_order ext ids) = set ids"
    and "vstack object_stack = Inr rows" and "length rows = length ids"
  shows "\<exists>ui. map ((!) ids) ui = set_order ext ids \<and>
           (\<forall>i \<in> set ui. i < length ids \<and> (\<forall>j < i. ids ! j \<noteq> ids ! i)) \<and>
           length ui = card (set ids) \<and>
           (int (card (set ids)) \<le> mx \<longrightarrow>
              merge_objects ar ext mx object_stack ids =
                Inr (map ((!) rows) ui @
                       replicate (nat mx - length ui) (PyArray (replicate 7 (PyNum (fzero ar)))),
                     replicate (length ui) (PyNum (fone ar)) @
                       replicate (nat mx - length ui) (PyNum (fzero ar)),
                     ui)) \<and>
           (mx < int (card (set ids)) \<and> card (set ids) \<noteq> 1 \<longrightarrow>
              merge_objects ar ext mx object_stack ids = Inl ValueError)"
proof -
  from assms(2) have "set (set_order ext ids) \<subseteq> set ids" by simp
  from unique_indices_exist [OF this] obtain ui where
    ui: "map_rows (list_index ids) (set_order ext ids) = Inr ui"
        "map ((!) ids) ui = set_order ext ids"
        "\<forall>i \<in> set ui. i < length ids \<and> (\<forall>j < i. ids ! j \<noteq> ids ! i)" by blast
  have "length ui = length (set_order ext ids)" using ui(2) by (metis length_map)
  also have "\<dots> = card (set ids)" using assms(1,2) by (metis distinct_card)
  finally have len: "length ui = card (set ids)" .
  from ui(3) assms(4) have "take_rows rows ui = Inr (map ((!) rows) ui)"
    by (intro take_rows_in_range) simp
  then have m: "merge_objects ar ext mx object_stack ids =
      ebind (pad_boxes ar mx (map ((!) rows) ui)) (\<lambda>(object_bbx_center, mask).
        Inr (object_bbx_center, mask, ui))"
    by (simp add: merge_objects_def ui(1) assms(3))
  show ?thesis
  proof (intro exI [of _ ui] conjI impI)
    show "map ((!) ids) ui = set_order ext ids" by (rule ui(2))
    show "\<forall>i \<in> set ui. i < length ids \<and> (\<forall>j < i. ids ! j \<noteq> ids ! i)" by (rule ui(3))
    show "length ui = card (set ids)" by (rule len)
  next
    assume "int (card (set ids)) \<le> mx"
    then show "merge_objects ar ext mx object_stack ids =
                Inr (map ((!) rows) ui @
                       replicate (nat mx - length ui) (PyArray (replicate 7 (PyNum (fzero ar)))),
                     replicate (length ui) (PyNum (fone ar)) @
                       replicate (nat mx - length ui) (PyNum (fzero ar)),
                     ui)"
      unfolding m by (simp add: pad_boxes_def len Let_def)
  next
    assume "mx < int (card (set ids)) \<and> card (set ids) \<noteq> 1"
    then show "merge_objects ar ext mx object_stack ids = Inl ValueError"
      unfolding m by (simp add: pad_boxes_def len Let_def)
  qed
qed

text \<open>The witness: two agents report the ids 1, 2 and 2, 3; the box that the first agent
  gives for id 2 is the one kept.\<close>

theorem merge_objects_first_seen_witness:
  "vstack [PyArray [demo_box 1, demo_box 2], PyArray [demo_box 9, demo_box 3]] =
     Inr [demo_box 1, demo_box 2, demo_box 9, demo_box 3] \<and>
   set_order demo_ext [PyInt 1, PyInt 2, PyInt 2, PyInt 3] = [PyInt 1, PyInt 2, PyInt 3] \<and>
   merge_objects demo_arith demo_ext 4
     [PyArray [demo_box 1, demo_box 2], PyArray [demo_box 9, demo_box 3]]
     [PyInt 1, PyInt 2, PyInt 2, PyInt 3] =
     Inr ([demo_box 1, demo_box 2, demo_box 3, PyArray (replicate 7 (PyNum 0))],
          [PyNum 1, PyNum 1, PyNum 1, PyNum 0], [0, 1, 3])"
proof -
  let ?ids = "[PyInt 1, PyInt 2, PyInt 2, PyInt 3] :: real pyval list"
  have so: "set_order demo_ext ?ids = [PyInt 1, PyInt 2, PyInt 3]"
    by (simp add: demo_ext_def)
  have h1: "distinct (set_order demo_ext ?ids)" and h2: "set (set_order demo_ext ?ids) = set ?ids"
    unfolding so by auto
  have h3: "vstack [PyArray [demo_box 1, demo_box 2], PyArray [demo_box 9, demo_box 3]] =
     Inr [demo_box 1, demo_box 2, demo_box 9, demo_box 3]"
    by (simp add: vstack_def)
  have h4: "length [demo_box 1, demo_box 2, demo_box 9, demo_box 3] = length ?ids" by simp
  have ev: "merge_objects demo_arith demo_ext 4
     [PyArray [demo_box 1, demo_box 2], PyArray [demo_box 9, demo_box 3]] ?ids =
     Inr ([demo_box 1, demo_box 2, demo_box 3, PyArray (replicate 7 (PyNum 0))],
          [PyNum 1, PyNum 1, PyNum 1, PyNum 0], [0, 1, 3])"
    by (simp add: merge_objects_def so vstack_def take_rows_def py_index_def pad_boxes_def
        demo_arith_def Let_def numeral_eq_Suc)
  from merge_objects_first_seen [OF h1 h2 h3 h4, of 4 demo_arith]
  show ?thesis using so h3 ev by simp
qed

text \<open>C4 as stated fails: two distinct objects and \<^verbatim>\<open>max_num = 1\<close> raise
  \<^verbatim>\<open>ValueError\<close>.\<close>

theorem merge_objects_overflow_counterexample:
  "merge_objects demo_arith demo_ext 1 [PyArray [demo_box 1, demo_box 2]] [PyInt 1, PyInt 2] =
     Inl ValueError"
  by (simp add: merge_objects_def demo_ext_def vstack_def take_rows_def py_index_def
      pad_boxes_def Let_def)


section \<open>The pairwise transformation tensor\<close>

lemma square_tensor_nth: "square_tensor L t \<Longrightarrow> i < L \<Longrightarrow> length (t ! i) = L"
  by (simp add: square_tensor_def list_all_length)

lemma tensor_set_square:
  assumes "square_tensor L t" "i < L" "j < L"
  shows "tensor_set t i j m = Inr (t[i := (t ! i)[j := m]])"
    and "square_tensor L (t[i := (t ! i)[j := m]])"
    and "\<And>a b. a < L \<Longrightarrow> b < L \<Longrightarrow>
           t[i := (t ! i)[j := m]] ! a ! b = (if a = i \<and> b = j then m else t ! a ! b)"
proof -
  from assms have l: "length t = L" "length (t ! i) = L"
    by (simp_all add: square_tensor_def list_all_length)
  with assms show "tensor_set t i j m = Inr (t[i := (t ! i)[j := m]])"
    by (simp add: tensor_set_def)
  show "square_tensor L (t[i := (t ! i)[j := m]])"
    using assms l by (auto simp: square_tensor_def list_all_length nth_list_update)
  show "t[i := (t ! i)[j := m]] ! a ! b = (if a = i \<and> b = j then m else t ! a ! b)"
    if "a < L" "b < L" for a b
    using that assms l by (auto simp: nth_list_update)
qed

lemma fill_pairs_entries:
  assumes "square_tensor L t"
    and "\<forall>p \<in> set ps. fst p < L \<and> snd p < L"
    and "\<forall>p \<in> set ps. fst p \<noteq> snd p \<longrightarrow>
           (\<exists>m. linalg_solve ext (t_list ! snd p) (t_list ! fst p) = Inr m)"
  shows "\<exists>t'. fill_pairs ext t_list ps t = Inr t' \<and> square_tensor L t' \<and>
           (\<forall>a < L. \<forall>b < L.
              if (a, b) \<in> set ps \<and> a \<noteq> b
              then linalg_solve ext (t_list ! b) (t_list ! a) = Inr (t' ! a ! b)
              else t' ! a ! b = t ! a ! b)"
  using assms
proof (induction ps arbitrary: t)
  case Nil
  then show ?case by simp
next
  case (Cons p ps)
  obtain i j where p: "p = (i, j)" by (cases p)
  from Cons.prems(2) p have ij: "i < L" "j < L" by auto
  from Cons.prems(2) have r2: "\<forall>p \<in> set ps. fst p < L \<and> snd p < L" by simp
  from Cons.prems(3) have r3: "\<forall>p \<in> set ps. fst p \<noteq> snd p \<longrightarrow>
           (\<exists>m. linalg_solve ext (t_list ! snd p) (t_list ! fst p) = Inr m)" by simp
  show ?case
  proof (cases "i = j")
    case True
    from Cons.IH [OF Cons.prems(1) r2 r3] obtain t' where
      t': "fill_pairs ext t_list ps t = Inr t'" "square_tensor L t'"
      "\<forall>a < L. \<forall>b < L. if (a, b) \<in> set ps \<and> a \<noteq> b
          then linalg_solve ext (t_list ! b) (t_list ! a) = Inr (t' ! a ! b)
          else t' ! a ! b = t ! a ! b" by blast
    show ?thesis
    proof (intro exI [of _ t'] conjI allI impI)
      show "fill_pairs ext t_list (p # ps) t = Inr t'" using True p t'(1) by simp
      show "square_tensor L t'" by (rule t'(2))
      fix a b assume "a < L" "b < L"
      with t'(3) True p
      show "if (a, b) \<in> set (p # ps) \<and> a \<noteq> b
            then linalg_solve ext (t_list ! b) (t_list ! a) = Inr (t' ! a ! b)
            else t' ! a ! b = t ! a ! b" by auto
    qed
  next
    case False
    with Cons.prems(3) p obtain m where m: "linalg_solve ext (t_list ! j) (t_list ! i) = Inr m"
      by auto
    let ?t1 = "t[i := (t ! i)[j := m]]"
    note ts = tensor_set_square [OF Cons.prems(1) ij, where m = m]
    from Cons.IH [OF ts(2) r2 r3] obtain t' where
      t': "fill_pairs ext t_list ps ?t1 = Inr t'" "square_tensor L t'"
      "\<forall>a < L. \<forall>b < L. if (a, b) \<in> set ps \<and> a \<noteq> b
          then linalg_solve ext (t_list ! b) (t_list ! a) = Inr (t' ! a ! b)
          else t' ! a ! b = ?t1 ! a ! b" by blast
    show ?thesis
    proof (intro exI [of _ t'] conjI allI impI)
      show "fill_pairs ext t_list (p # ps) t = Inr t'"
        using False p m ts(1) t'(1) by simp
      show "square_tensor L t'" by (rule t'(2))
      fix a b assume ab: "a < L" "b < L"
      show "if (a, b) \<in> set (p # ps) \<and> a \<noteq> b
            then linalg_solve ext (t_list ! b) (t_list ! a) = Inr (t' ! a ! b)
            else t' ! a ! b = t ! a ! b"
      proof (cases "(a, b) \<in> set ps \<and> a \<noteq> b")
        case True
        with t'(3) ab show ?thesis by auto
      next
        case nin: False
        with t'(3) ab have e: "t' ! a ! b = ?t1 ! a ! b" by auto
        show ?thesis
        proof (cases "a = i \<and> b = j")
          case True
          with e ts(3) [OF ab] m False p show ?thesis by auto
        next
          case False
          with e ts(3) [OF ab] nin p show ?thesis by auto
        qed
      qed
    qed
  qed
qed

lemma set_index_pairs: "set (index_pairs n) = {(i, j). i < n \<and> j < n}"
  by (auto simp: index_pairs_def)

lemma world_matrices_nth:
  "world_matrices ext base = Inr t_list \<Longrightarrow>
   length t_list = length base \<and>
   (\<forall>n < length base. \<exists>p pose.
      subscript (snd (base ! n)) (KStr ''params'') = Inr p \<and>
      subscript p (KStr ''lidar_pose'') = Inr pose \<and> x_to_world ext pose = Inr (t_list ! n))"
proof (induction base arbitrary: t_list)
  case Nil
  then show ?case by simp
next
  case (Cons a base)
  obtain cav_id c where a: "a = (cav_id, c)" by (cases a)
  from Cons.prems a obtain p pose t ts where
    s: "subscript c (KStr ''params'') = Inr p" "subscript p (KStr ''lidar_pose'') = Inr pose"
       "x_to_world ext pose = Inr t" "world_matrices ext base = Inr ts" "t_list = t # ts"
    by (auto simp: ebind_Inr_iff)
  from Cons.IH [OF s(4)] have ih: "length ts = length base"
    "\<forall>n < length base. \<exists>p pose.
      subscript (snd (base ! n)) (KStr ''params'') = Inr p \<and>
      subscript p (KStr ''lidar_pose'') = Inr pose \<and> x_to_world ext pose = Inr (ts ! n)"
    by simp_all
  show ?case
  proof (intro conjI allI impI)
    show "length t_list = length (a # base)" using s(5) ih(1) by simp
    fix n assume "n < length (a # base)"
    then show "\<exists>p pose. subscript (snd ((a # base) ! n)) (KStr ''params'') = Inr p \<and>
      subscript p (KStr ''lidar_pose'') = Inr pose \<and> x_to_world ext pose = Inr (t_list ! n)"
      using s a ih(2) by (cases n) auto
  qed
qed

text \<open>
  On records that carry the pose under \<^verbatim>\<open>'params'\<close>. For \<^verbatim>\<open>max_cav = L \<ge> 0\<close>: with
  \<^verbatim>\<open>proj_first\<close> the result is the \<open>L \<times> L\<close> tensor of identity matrices, whatever the
  input. Otherwise, when the world matrix of every agent is read and computed
  (\<open>t_list\<close>), there are at most \<open>L\<close> agents and the solver returns for each pair, the
  result is an \<open>L \<times> L\<close> tensor whose entry \<open>[i, j]\<close> for two distinct agents is
  \<^verbatim>\<open>np.linalg.solve(t_list[j], t_list[i])\<close> and whose other entries, the diagonal and the
  unused slots, are the identity matrix.
\<close>

lemma pairwise_transformation:
  assumes "0 \<le> max_cav"
  shows "(proj_first st \<longrightarrow>
            get_pairwise_transformation ar ext st base max_cav =
              Inr (replicate (nat max_cav) (replicate (nat max_cav) (eye4 ar)))) \<and>
         (\<not> proj_first st \<and> world_matrices ext base = Inr t_list \<and>
          int (length t_list) \<le> max_cav \<and>
          (\<forall>i < length t_list. \<forall>j < length t_list. i \<noteq> j \<longrightarrow>
             (\<exists>m. linalg_solve ext (t_list ! j) (t_list ! i) = Inr m)) \<longrightarrow>
            (\<exists>t. get_pairwise_transformation ar ext st base max_cav = Inr t \<and>
               length t = nat max_cav \<and>
               (\<forall>i < nat max_cav. length (t ! i) = nat max_cav \<and>
                  (\<forall>j < nat max_cav.
                     if i < length t_list \<and> j < length t_list \<and> i \<noteq> j
                     then linalg_solve ext (t_list ! j) (t_list ! i) = Inr (t ! i ! j)
                     else t ! i ! j = eye4 ar)) \<and>
               length t_list = length base \<and>
               (\<forall>n < length base. \<exists>p pose.
                  subscript (snd (base ! n)) (KStr ''params'') = Inr p \<and>
                  subscript p (KStr ''lidar_pose'') = Inr pose \<and>
                  x_to_world ext pose = Inr (t_list ! n))))"
proof (intro conjI impI)
  assume "proj_first st"
  with assms show "get_pairwise_transformation ar ext st base max_cav =
              Inr (replicate (nat max_cav) (replicate (nat max_cav) (eye4 ar)))"
    by (simp add: get_pairwise_transformation_def identity_tensor_def)
next
  let ?L = "nat max_cav"
  let ?t0 = "replicate ?L (replicate ?L (eye4 ar))"
  assume h: "\<not> proj_first st \<and> world_matrices ext base = Inr t_list \<and>
          int (length t_list) \<le> max_cav \<and>
          (\<forall>i < length t_list. \<forall>j < length t_list. i \<noteq> j \<longrightarrow>
             (\<exists>m. linalg_solve ext (t_list ! j) (t_list ! i) = Inr m))"
  then have n: "length t_list \<le> ?L" by linarith
  have sq: "square_tensor ?L ?t0" by (simp add: square_tensor_def list_all_length)
  have r2: "\<forall>p \<in> set (index_pairs (length t_list)). fst p < ?L \<and> snd p < ?L"
    using n by (auto simp: set_index_pairs)
  have r3: "\<forall>p \<in> set (index_pairs (length t_list)). fst p \<noteq> snd p \<longrightarrow>
           (\<exists>m. linalg_solve ext (t_list ! snd p) (t_list ! fst p) = Inr m)"
    using h by (auto simp: set_index_pairs)
  from fill_pairs_entries [OF sq r2 r3] obtain t where
    t: "fill_pairs ext t_list (index_pairs (length t_list)) ?t0 = Inr t" "square_tensor ?L t"
       "\<forall>a < ?L. \<forall>b < ?L.
          if (a, b) \<in> set (index_pairs (length t_list)) \<and> a \<noteq> b
          then linalg_solve ext (t_list ! b) (t_list ! a) = Inr (t ! a ! b)
          else t ! a ! b = ?t0 ! a ! b" by blast
  have g: "get_pairwise_transformation ar ext st base max_cav = Inr t"
    using h assms t(1) by (simp add: get_pairwise_transformation_def identity_tensor_def)
  have e: "\<forall>i < ?L. length (t ! i) = ?L \<and>
             (\<forall>j < ?L. if i < length t_list \<and> j < length t_list \<and> i \<noteq> j
                     then linalg_solve ext (t_list ! j) (t_list ! i) = Inr (t ! i ! j)
                     else t ! i ! j = eye4 ar)"
  proof (intro allI impI conjI)
    fix i assume i: "i < ?L"
    show "length (t ! i) = ?L" using square_tensor_nth [OF t(2) i] .
    fix j assume j: "j < ?L"
    from t(3) i j have "if (i, j) \<in> set (index_pairs (length t_list)) \<and> i \<noteq> j
          then linalg_solve ext (t_list ! j) (t_list ! i) = Inr (t ! i ! j)
          else t ! i ! j = ?t0 ! i ! j" by blast
    then show "if i < length t_list \<and> j < length t_list \<and> i \<noteq> j
                     then linalg_solve ext (t_list ! j) (t_list ! i) = Inr (t ! i ! j)
                     else t ! i ! j = eye4 ar"
      using i j by (auto simp: set_index_pairs split: if_splits)
  qed
  from h world_matrices_nth [of ext base t_list] have w: "length t_list = length base \<and>
               (\<forall>n < length base. \<exists>p pose.
                  subscript (snd (base ! n)) (KStr ''params'') = Inr p \<and>
                  subscript p (KStr ''lidar_pose'') = Inr pose \<and>
                  x_to_world ext pose = Inr (t_list ! n))" by blast
  from t(2) have "length t = ?L" by (simp add: square_tensor_def)
  with g e w show "\<exists>t. get_pairwise_transformation ar ext st base max_cav = Inr t \<and>
               length t = nat max_cav \<and>
               (\<forall>i < nat max_cav. length (t ! i) = nat max_cav \<and>
                  (\<forall>j < nat max_cav.
                     if i < length t_list \<and> j < length t_list \<and> i \<noteq> j
                     then linalg_solve ext (t_list ! j) (t_list ! i) = Inr (t ! i ! j)
                     else t ! i ! j = eye4 ar)) \<and>
               length t_list = length base \<and>
               (\<forall>n < length base. \<exists>p pose.
                  subscript (snd (base ! n)) (KStr ''params'') = Inr p \<and>
                  subscript p (KStr ''lidar_pose'') = Inr pose \<and>
                  x_to_world ext pose = Inr (t_list ! n))"
    by blast
qed


lemma demo_world_matrices:
  "world_matrices demo_ext demo_agents =
     Inr [translation_matrix 0 0 0, translation_matrix 10 0 0]"
  by (simp add: demo_agents_def demo_agent_def demo_pose_def demo_ext_def demo_x_to_world_def
      pose_xyz_def entry_num_def py_index_def)

lemma demo_solve_translation:
  "demo_solve (translation_matrix a b c) (translation_matrix d e f) =
     Inr (translation_matrix (d - a) (e - b) (f - c))"
  by (simp add: demo_solve_def matrix_xyz_def matrix_entry_def entry_num_def py_index_def
      translation_matrix_def)

text \<open>An instance: the agents \<^verbatim>\<open>a\<close> at the origin and \<^verbatim>\<open>b\<close> at \<open>x = 10\<close>, three
  slots. Entry \<open>[0, 1]\<close> takes the frame of \<^verbatim>\<open>a\<close> into that of \<^verbatim>\<open>b\<close>: the translation
  by \<open>-10\<close>.\<close>

lemma pairwise_transformation_demo:
  "get_pairwise_transformation demo_arith demo_ext ((demo_dataset 1 1)\<lparr>proj_first := True\<rparr>)
     demo_agents 3 = Inr (replicate 3 (replicate 3 (eye4 demo_arith))) \<and>
   world_matrices demo_ext demo_agents =
     Inr [translation_matrix 0 0 0, translation_matrix 10 0 0] \<and>
   get_pairwise_transformation demo_arith demo_ext (demo_dataset 1 1) demo_agents 3 =
     Inr [[eye4 demo_arith, translation_matrix (- 10) 0 0, eye4 demo_arith],
          [translation_matrix 10 0 0, eye4 demo_arith, eye4 demo_arith],
          [eye4 demo_arith, eye4 demo_arith, eye4 demo_arith]]"
proof -
  have p: "proj_first ((demo_dataset 1 1)\<lparr>proj_first := True\<rparr>)"
    "\<not> proj_first (demo_dataset 1 1)" by (simp_all add: demo_dataset_def)
  have s: "linalg_solve demo_ext = demo_solve" by (simp add: demo_ext_def)
  have ev: "get_pairwise_transformation demo_arith demo_ext (demo_dataset 1 1) demo_agents 3 =
     Inr [[eye4 demo_arith, translation_matrix (- 10) 0 0, eye4 demo_arith],
          [translation_matrix 10 0 0, eye4 demo_arith, eye4 demo_arith],
          [eye4 demo_arith, eye4 demo_arith, eye4 demo_arith]]"
    by (simp add: get_pairwise_transformation_def identity_tensor_def demo_world_matrices p
        index_pairs_def upt_rec s demo_solve_translation tensor_set_def numeral_eq_Suc)
  have z: "(0::int) \<le> 3" by simp
  from pairwise_transformation [OF z, of "(demo_dataset 1 1)\<lparr>proj_first := True\<rparr>"
         demo_arith demo_ext demo_agents] p(1)
  have 1: "get_pairwise_transformation demo_arith demo_ext
             ((demo_dataset 1 1)\<lparr>proj_first := True\<rparr>) demo_agents 3 =
           Inr (replicate 3 (replicate 3 (eye4 demo_arith)))"
    by simp
  let ?tl = "[translation_matrix 0 0 0, translation_matrix 10 0 0]"
  have sv: "\<forall>i < length ?tl. \<forall>j < length ?tl. i \<noteq> j \<longrightarrow>
              (\<exists>m. linalg_solve demo_ext (?tl ! j) (?tl ! i) = Inr m)"
    by (auto simp: s demo_solve_translation less_Suc_eq nth_Cons')
  have le: "int (length ?tl) \<le> 3" by simp
  from pairwise_transformation [OF z, of "demo_dataset 1 1" demo_arith demo_ext demo_agents ?tl]
    p(2) demo_world_matrices sv le
  have 2: "\<exists>t. get_pairwise_transformation demo_arith demo_ext (demo_dataset 1 1) demo_agents 3 =
             Inr t \<and> length t = nat 3"
    by blast
  from 1 2 demo_world_matrices ev show ?thesis by simp
qed

text \<open>
  On the records that \<^verbatim>\<open>retrieve_base_data\<close> builds, which hold the poses under
  \<^verbatim>\<open>'curr'\<close> and \<^verbatim>\<open>'past_k'\<close> and have no \<^verbatim>\<open>'params'\<close> of their own, line 790
  raises \<^verbatim>\<open>KeyError\<close> at the first agent.
\<close>

lemma world_matrices_base_records:
  assumes "\<forall>e \<in> set base. base_record (snd e)" and "base \<noteq> []"
  shows "world_matrices ext base = Inl KeyError"
proof (cases base)
  case Nil
  with assms(2) show ?thesis by simp
next
  case (Cons a rest)
  obtain cav_id v where a: "a = (cav_id, v)" by (cases a)
  with assms(1) Cons have "base_record v" by simp
  then have "subscript v (KStr ''params'') = Inl KeyError" by (rule base_record_no_params)
  with Cons a show ?thesis by simp
qed

lemma pairwise_transformation_on_retrieved:
  assumes "retrieve_base_data st io idx = Inr base" and "base \<noteq> []"
    and "\<not> proj_first st" and "0 \<le> max_cav"
  shows "get_pairwise_transformation ar ext st base max_cav = Inl KeyError"
  using world_matrices_base_records [OF retrieve_base_data_shape [OF assms(1)] assms(2)] assms(3,4)
  by (simp add: get_pairwise_transformation_def identity_tensor_def)

text \<open>
  C5 on the code. The small dataset with \<open>k = 1\<close>, \<open>\<tau> = 1\<close>, \<^verbatim>\<open>proj_first\<close> false and
  \<^verbatim>\<open>max_cav = 2\<close>: for the records of the agents \<^verbatim>\<open>a\<close> and \<^verbatim>\<open>b\<close> that
  \<^verbatim>\<open>retrieve_base_data\<close> returns at the flat index 1,
  \<^verbatim>\<open>get_pairwise_transformation\<close> raises \<^verbatim>\<open>KeyError\<close> and returns no tensor.
\<close>

theorem pairwise_transformation_raises:
  "retrieve_base_data (demo_dataset 1 1) demo_io 1 = Inr demo_base_data \<and>
   \<not> proj_first (demo_dataset 1 1) \<and> self_max_cav (demo_dataset 1 1) = 2 \<and>
   get_pairwise_transformation demo_arith demo_ext (demo_dataset 1 1) demo_base_data 2 =
     Inl KeyError"
proof -
  have p: "\<not> proj_first (demo_dataset 1 1)" "self_max_cav (demo_dataset 1 1) = 2"
    by (simp_all add: demo_dataset_def)
  have n: "demo_base_data \<noteq> []" by (simp add: demo_base_data_def)
  have z: "(0::int) \<le> 2" by simp
  from pairwise_transformation_on_retrieved [OF demo_retrieve_1_1 n p(1) z] p demo_retrieve_1_1
  show ?thesis by simp
qed

section \<open>The order of the steps in \<^verbatim>\<open>get_item_single_car\<close>\<close>


lemma single_car_loop_empty: "single_car_loop ext st b e [] None = Inr None"
  by simp






text \<open>On a record that \<^verbatim>\<open>retrieve_base_data\<close> builds, whose \<^verbatim>\<open>'past_k'\<close> is keyed by
  the frame numbers, line 513 raises \<^verbatim>\<open>KeyError\<close> before any cloud is read: the method
  processes a cloud only on a record with the entries that its body reads.\<close>

lemma single_car_on_retrieved_record:
  "retrieve_base_data (demo_dataset 1 1) demo_io 1 = Inr demo_base_data \<and>
   dict_get demo_base_data (KStr ''b'') =
     Inr (PyDict [(KStr ''ego'', PyBool False),
                  (KStr ''past_k'', PyDict [(KInt 0, demo_frame ''b'' ''0'')]),
                  (KStr ''curr'', demo_frame ''b'' ''1'')]) \<and>
   get_item_single_car demo_arith demo_ext (demo_dataset 1 1)
     (PyDict [(KStr ''ego'', PyBool False),
              (KStr ''past_k'', PyDict [(KInt 0, demo_frame ''b'' ''0'')]),
              (KStr ''curr'', demo_frame ''b'' ''1'')]) (demo_pose 0) (PyInt 1) = Inl KeyError"
proof -
  have k: "py_range (self_k (demo_dataset 1 1)) = [0]"
    by (simp add: demo_dataset_def py_range_def)
  have g: "get_item_single_car demo_arith demo_ext (demo_dataset 1 1)
     (PyDict [(KStr ''ego'', PyBool False),
              (KStr ''past_k'', PyDict [(KInt 0, demo_frame ''b'' ''0'')]),
              (KStr ''curr'', demo_frame ''b'' ''1'')]) (demo_pose 0) (PyInt 1) = Inl KeyError"
    unfolding get_item_single_car_def k by (simp add: single_car_pass_def)
  have d: "dict_get demo_base_data (KStr ''b'') =
     Inr (PyDict [(KStr ''ego'', PyBool False),
                  (KStr ''past_k'', PyDict [(KInt 0, demo_frame ''b'' ''0'')]),
                  (KStr ''curr'', demo_frame ''b'' ''1'')])"
    by (simp add: demo_base_data_def)
  from demo_retrieve_1_1 d g show ?thesis by simp
qed





section \<open>Collation\<close>

lemma dict_get_dict_set:
  "dict_get (dict_set d k v) k' = (if k' = k then Inr v else dict_get d k')"
  by (induction d) auto

lemma fold_max_ints:
  "fold_err (\<lambda>m y. ebind (py_gt ar y m) (\<lambda>g. Inr (if g then y else m))) (PyInt m) (map PyInt xs) =
     Inr (PyInt (fold max xs m))"
proof (induction xs arbitrary: m)
  case Nil
  then show ?case by simp
next
  case (Cons x xs)
  have "(if m < x then x else m) = max x m" by (simp add: max_def)
  with Cons.IH [of "max x m"] show ?case by (cases "m < x") simp_all
qed

lemma tensor_max_ints:
  assumes "col \<noteq> []"
  shows "tensor_max ar (map PyInt col) = Inr (PyInt (Max (set col)))"
proof (cases col)
  case Nil
  with assms show ?thesis by simp
next
  case (Cons x xs)
  have "Max (set (x # xs)) = fold max xs x" by (rule Max.set_eq_fold)
  then show ?thesis unfolding Cons by (simp only: list.map tensor_max.simps fold_max_ints)
qed

lemma collect_sample_cav_num:
  assumes "collect_sample st c s = Inr c1"
  shows "\<exists>e v. subscript s (KStr ''ego'') = Inr e \<and> subscript e (KStr ''cav_num'') = Inr v \<and>
           c_record_len c1 = c_record_len c @ [v]"
proof -
  from assms obtain e where e: "subscript s (KStr ''ego'') = Inr e"
    unfolding collect_sample_def by (cases "subscript s (KStr ''ego'')") simp_all
  from assms e obtain v1 v2 v3 v4 v5 v6 v where
    v: "subscript e (KStr ''cav_num'') = Inr v"
    and r: "ebind (subscript e (KStr ''label_dict'')) (\<lambda>v8.
     ebind (subscript e (KStr ''pairwise_t_matrix'')) (\<lambda>v9.
     ebind (if kd_flag st
            then ebind (subscript e (KStr ''teacher_processed_lidar''))
                   (\<lambda>t. Inr (c_teacher_processed_lidar_list c @ [t]))
            else Inr (c_teacher_processed_lidar_list c)) (\<lambda>teacher.
     ebind (if visualize st
            then ebind (subscript e (KStr ''origin_lidar''))
                   (\<lambda>l. Inr (c_origin_lidar c @ [l]))
            else Inr (c_origin_lidar c)) (\<lambda>origin.
     Inr \<lparr> c_object_bbx_center = c_object_bbx_center c @ [v1],
           c_object_bbx_mask = c_object_bbx_mask c @ [v2],
           c_object_ids = c_object_ids c @ [v3],
           c_lidar_pose_list = c_lidar_pose_list c @ [v4],
           c_lidar_pose_clean_list = c_lidar_pose_clean_list c @ [v5],
           c_processed_lidar_list = c_processed_lidar_list c @ [v6],
           c_record_len = c_record_len c @ [v],
           c_label_dict_list = c_label_dict_list c @ [v8],
           c_pairwise_t_matrix_list = c_pairwise_t_matrix_list c @ [v9],
           c_teacher_processed_lidar_list = teacher,
           c_origin_lidar = origin \<rparr>)))) = Inr c1"
    unfolding collect_sample_def by (simp add: ebind_Inr_iff) blast
  from r obtain v8 v9 teacher origin where
    "c1 = \<lparr> c_object_bbx_center = c_object_bbx_center c @ [v1],
           c_object_bbx_mask = c_object_bbx_mask c @ [v2],
           c_object_ids = c_object_ids c @ [v3],
           c_lidar_pose_list = c_lidar_pose_list c @ [v4],
           c_lidar_pose_clean_list = c_lidar_pose_clean_list c @ [v5],
           c_processed_lidar_list = c_processed_lidar_list c @ [v6],
           c_record_len = c_record_len c @ [v],
           c_label_dict_list = c_label_dict_list c @ [v8],
           c_pairwise_t_matrix_list = c_pairwise_t_matrix_list c @ [v9],
           c_teacher_processed_lidar_list = teacher,
           c_origin_lidar = origin \<rparr>"
    by (simp add: ebind_Inr_iff) blast
  then have "c_record_len c1 = c_record_len c @ [v]" by simp
  with e v show ?thesis by blast
qed

lemma collect_record_len:
  "fold_err (collect_sample st) c batch = Inr c' \<Longrightarrow>
   \<exists>vs. c_record_len c' = c_record_len c @ vs \<and>
        list_all2 (\<lambda>s v. \<exists>e. subscript s (KStr ''ego'') = Inr e \<and>
                              subscript e (KStr ''cav_num'') = Inr v) batch vs"
proof (induction batch arbitrary: c)
  case Nil
  then show ?case by simp
next
  case (Cons s batch)
  from Cons.prems obtain c1 where c1: "collect_sample st c s = Inr c1"
    and r: "fold_err (collect_sample st) c1 batch = Inr c'"
    by (auto simp: ebind_Inr_iff)
  from collect_sample_cav_num [OF c1] obtain e v where e: "subscript s (KStr ''ego'') = Inr e"
    "subscript e (KStr ''cav_num'') = Inr v" "c_record_len c1 = c_record_len c @ [v]"
    by blast
  from Cons.IH [OF r] obtain vs where vs: "c_record_len c' = c_record_len c1 @ vs"
    "list_all2 (\<lambda>s v. \<exists>e. subscript s (KStr ''ego'') = Inr e \<and>
                              subscript e (KStr ''cav_num'') = Inr v) batch vs" by blast
  show ?case
    by (rule exI [of _ "v # vs"]) (use e vs in auto)
qed

lemma assemble_batch_record_len:
  assumes "assemble_batch ar ext st batch = Inr (ego, record_len)"
  shows "list_all2 (\<lambda>s n. \<exists>e v. subscript s (KStr ''ego'') = Inr e \<and>
            subscript e (KStr ''cav_num'') = Inr v \<and> np_int ar v = Inr n) batch record_len"
proof -
  from assms obtain c where c: "fold_err (collect_sample st) no_samples batch = Inr c"
    and rl: "map_rows (np_int ar) (c_record_len c) = Inr record_len"
    by (auto simp: assemble_batch_def ebind_Inr_iff Let_def split: if_splits)
  from collect_record_len [OF c] have
    a: "list_all2 (\<lambda>s v. \<exists>e. subscript s (KStr ''ego'') = Inr e \<and>
                              subscript e (KStr ''cav_num'') = Inr v) batch (c_record_len c)"
    by (simp add: no_samples_def)
  from rl have b: "list_all2 (\<lambda>v n. np_int ar v = Inr n) (c_record_len c) record_len"
    by (simp add: map_rows_Inr_iff)
  show ?thesis
    by (rule list_all2_trans [OF _ a b]) blast
qed

lemma assemble_batch_processed_lidar:
  assumes "assemble_batch ar ext st batch = Inr (ego, record_len)"
  shows "\<exists>merged pl. pre_collate_batch ext (PyDict merged) = Inr pl \<and>
           dict_get ego (KStr ''processed_lidar'') = Inr pl"
  using assms
  by (auto simp: assemble_batch_def ebind_Inr_iff Let_def dict_get_dict_set split: if_splits)

lemma int32_id: "- (2 ^ 31) \<le> i \<Longrightarrow> i < 2 ^ 31 \<Longrightarrow> int32 i = i"
  by (simp add: int32_def)

lemma demo_assemble:
  assumes "\<not> kd_flag st" and "\<not> visualize st" and "- (2 ^ 63) \<le> n" and "n < 2 ^ 63"
  shows "assemble_batch demo_arith demo_ext st [demo_sample n [demo_voxels, PyArray []]] =
           Inr (demo_collated n [voxel_row 0], [n])"
    and "assemble_batch demo_arith demo_ext st [demo_sample n [demo_voxels, demo_voxels]] =
           Inr (demo_collated n [voxel_row 0, voxel_row 1], [n])"
    and "assemble_batch demo_arith demo_ext st
           [demo_sample n [demo_voxels, PyArray [], demo_voxels]] =
           Inr (demo_collated n [voxel_row 0, voxel_row 2], [n])"
  using assms
  by (simp_all add: assemble_batch_def collect_sample_def no_samples_def demo_sample_def
      merge_features_to_dict_def np_concatenate_def demo_ext_def demo_pre_collate_batch_def
      with_batch_index_def py_index_def demo_voxels_def Let_def upt_rec demo_collated_def
      voxel_row_def)

lemma demo_flags:
  "\<not> kd_flag (demo_dataset 1 1)" "\<not> visualize (demo_dataset 1 1)"
  "\<not> kd_flag demo_pp_dataset" "\<not> visualize demo_pp_dataset"
  "core_method (params (demo_dataset 1 1)) = ''SpVoxelPreprocessor''"
  "core_method (params demo_pp_dataset) = ''PointPillarPreprocessor''"
  by (simp_all add: demo_dataset_def demo_pp_dataset_def demo_hypes_def)

lemma demo_train_short:
  "collate_batch_train demo_arith demo_ext (demo_dataset 1 1)
     [demo_sample 2 [demo_voxels, PyArray []]] = Inr PyNone"
  by (simp add: collate_batch_train_def demo_assemble demo_flags)
     (simp add: demo_collated_def batch_index_mismatch_def voxel_row_def py_index_def int32_def)

lemma demo_train_full:
  "collate_batch_train demo_arith demo_ext (demo_dataset 1 1)
     [demo_sample 2 [demo_voxels, demo_voxels]] =
     Inr (PyDict [(KStr ''ego'', PyDict (demo_collated 2 [voxel_row 0, voxel_row 1]))])"
  by (simp add: collate_batch_train_def demo_assemble demo_flags)
     (simp add: demo_collated_def batch_index_mismatch_def voxel_row_def py_index_def int32_def)

text \<open>
  C7, as the code has it. After the assembly of lines 598-689, \<open>record_len\<close> holds the
  agent count of each sample and \<^verbatim>\<open>processed_lidar\<close> what the preprocessor collated.
  For a preprocessor other than \<^verbatim>\<open>SpVoxelPreprocessor\<close> the collated batch is returned
  with no check. For \<^verbatim>\<open>SpVoxelPreprocessor\<close>, with a non-empty integer batch-index
  column \<open>col\<close>, the result is \<^verbatim>\<open>None\<close>, not an exception, exactly when the largest
  entry of \<open>col\<close>, cast to 32 bits, plus one differs from the sum of \<open>record_len\<close> cast
  to 32 bits; otherwise it is the collated batch.
\<close>

theorem collate_batch_train_check:
  assumes "assemble_batch ar ext st batch = Inr (ego, record_len)"
  shows "list_all2 (\<lambda>s n. \<exists>e v. subscript s (KStr ''ego'') = Inr e \<and>
            subscript e (KStr ''cav_num'') = Inr v \<and> np_int ar v = Inr n) batch record_len \<and>
         (\<exists>merged pl. pre_collate_batch ext (PyDict merged) = Inr pl \<and>
            dict_get ego (KStr ''processed_lidar'') = Inr pl \<and>
            (core_method (params st) \<noteq> ''SpVoxelPreprocessor'' \<longrightarrow>
               collate_batch_train ar ext st batch = Inr (PyDict [(KStr ''ego'', PyDict ego)])) \<and>
            (\<forall>vc col. core_method (params st) = ''SpVoxelPreprocessor'' \<and>
               subscript pl (KStr ''voxel_coords'') = Inr vc \<and>
               column0 vc = Inr (map PyInt col) \<and> col \<noteq> [] \<longrightarrow>
               collate_batch_train ar ext st batch =
                 (if int32 (Max (set col)) + 1 \<noteq> int32 (sum_list record_len) then Inr PyNone
                  else Inr (PyDict [(KStr ''ego'', PyDict ego)]))))"
proof -
  from assemble_batch_processed_lidar [OF assms] obtain merged pl where
    pc: "pre_collate_batch ext (PyDict merged) = Inr pl"
    and pl: "dict_get ego (KStr ''processed_lidar'') = Inr pl" by blast
  have 1: "list_all2 (\<lambda>s n. \<exists>e v. subscript s (KStr ''ego'') = Inr e \<and>
            subscript e (KStr ''cav_num'') = Inr v \<and> np_int ar v = Inr n) batch record_len"
    by (rule assemble_batch_record_len [OF assms])
  have 2: "collate_batch_train ar ext st batch = Inr (PyDict [(KStr ''ego'', PyDict ego)])"
    if "core_method (params st) \<noteq> ''SpVoxelPreprocessor''"
    using that by (simp add: collate_batch_train_def assms)
  have 3: "collate_batch_train ar ext st batch =
              (if int32 (Max (set col)) + 1 \<noteq> int32 (sum_list record_len) then Inr PyNone
               else Inr (PyDict [(KStr ''ego'', PyDict ego)]))"
    if h: "core_method (params st) = ''SpVoxelPreprocessor'' \<and>
           subscript pl (KStr ''voxel_coords'') = Inr vc \<and>
           column0 vc = Inr (map PyInt col) \<and> col \<noteq> []" for vc col
  proof -
    from h have "batch_index_mismatch ar pl record_len =
                   Inr (int32 (Max (set col)) + 1 \<noteq> int32 (sum_list record_len))"
      by (simp add: batch_index_mismatch_def tensor_max_ints)
    with h pl show ?thesis by (simp add: collate_batch_train_def assms)
  qed
  from 1 pc pl 2 3 show ?thesis by blast
qed

text \<open>What the statement leaves out: with \<^verbatim>\<open>SpVoxelPreprocessor\<close> and an empty
  batch-index column, \<^verbatim>\<open>.max()\<close> raises.\<close>

lemma collate_batch_train_empty_column:
  assumes "assemble_batch ar ext st batch = Inr (ego, record_len)"
    and "core_method (params st) = ''SpVoxelPreprocessor''"
    and "dict_get ego (KStr ''processed_lidar'') = Inr pl"
    and "subscript pl (KStr ''voxel_coords'') = Inr vc"
    and "column0 vc = Inr []"
  shows "collate_batch_train ar ext st batch = Inl RuntimeError"
  using assms by (simp add: collate_batch_train_def batch_index_mismatch_def)

text \<open>The witness: one sample of two agents. When the second agent has no voxel the
  column is \<open>[0]\<close> and the result is \<^verbatim>\<open>None\<close>; when both have one it is \<open>[0, 1]\<close> and
  the batch is returned.\<close>

theorem collate_batch_train_check_witness:
  "assemble_batch demo_arith demo_ext (demo_dataset 1 1)
     [demo_sample 2 [demo_voxels, PyArray []]] = Inr (demo_collated 2 [voxel_row 0], [2]) \<and>
   column0 (PyArray [voxel_row 0]) = Inr (map PyInt [0]) \<and>
   collate_batch_train demo_arith demo_ext (demo_dataset 1 1)
     [demo_sample 2 [demo_voxels, PyArray []]] = Inr PyNone \<and>
   collate_batch_train demo_arith demo_ext (demo_dataset 1 1)
     [demo_sample 2 [demo_voxels, demo_voxels]] =
     Inr (PyDict [(KStr ''ego'', PyDict (demo_collated 2 [voxel_row 0, voxel_row 1]))]) \<and>
   collate_batch_train demo_arith demo_ext demo_pp_dataset
     [demo_sample 2 [demo_voxels, demo_voxels]] =
     Inr (PyDict [(KStr ''ego'', PyDict (demo_collated 2 [voxel_row 0, voxel_row 1]))])"
proof -
  have a: "assemble_batch demo_arith demo_ext (demo_dataset 1 1)
     [demo_sample 2 [demo_voxels, PyArray []]] = Inr (demo_collated 2 [voxel_row 0], [2])"
    by (simp add: demo_assemble demo_flags)
  have g: "dict_get (demo_collated 2 [voxel_row 0]) (KStr ''processed_lidar'') =
             Inr (PyDict [(KStr ''voxel_coords'', PyArray [voxel_row 0])])"
    by (simp add: demo_collated_def)
  have s: "subscript (PyDict [(KStr ''voxel_coords'', PyArray [voxel_row 0])])
             (KStr ''voxel_coords'') = Inr (PyArray [voxel_row 0])" by simp
  have c: "column0 (PyArray [voxel_row 0]) = Inr (map PyInt [0])"
    by (simp add: voxel_row_def py_index_def)
  have n: "[0::int] \<noteq> []" by simp
  from collate_batch_train_check [OF a] obtain pl where
    p: "dict_get (demo_collated 2 [voxel_row 0]) (KStr ''processed_lidar'') = Inr pl"
    and q: "\<forall>vc col. core_method (params (demo_dataset 1 1)) = ''SpVoxelPreprocessor'' \<and>
               subscript pl (KStr ''voxel_coords'') = Inr vc \<and>
               column0 vc = Inr (map PyInt col) \<and> col \<noteq> [] \<longrightarrow>
               collate_batch_train demo_arith demo_ext (demo_dataset 1 1)
                 [demo_sample 2 [demo_voxels, PyArray []]] =
                 (if int32 (Max (set col)) + 1 \<noteq> int32 (sum_list [2]) then Inr PyNone
                  else Inr (PyDict [(KStr ''ego'', PyDict (demo_collated 2 [voxel_row 0]))]))"
    by blast
  from p g have pl: "pl = PyDict [(KStr ''voxel_coords'', PyArray [voxel_row 0])]" by simp
  from q [rule_format, of "PyArray [voxel_row 0]" "[0]"] s c n demo_flags(5)
  have 1: "collate_batch_train demo_arith demo_ext (demo_dataset 1 1)
     [demo_sample 2 [demo_voxels, PyArray []]] = Inr PyNone"
    unfolding pl by (simp add: int32_def)
  have b: "assemble_batch demo_arith demo_ext demo_pp_dataset
     [demo_sample 2 [demo_voxels, demo_voxels]] =
       Inr (demo_collated 2 [voxel_row 0, voxel_row 1], [2])"
    by (simp add: demo_assemble demo_flags)
  have pp: "core_method (params demo_pp_dataset) \<noteq> ''SpVoxelPreprocessor''"
    by (simp add: demo_flags)
  from collate_batch_train_check [OF b] pp
  have 2: "collate_batch_train demo_arith demo_ext demo_pp_dataset
     [demo_sample 2 [demo_voxels, demo_voxels]] =
     Inr (PyDict [(KStr ''ego'', PyDict (demo_collated 2 [voxel_row 0, voxel_row 1]))])"
    by blast
  from a c 1 2 demo_train_full show ?thesis by simp
qed

text \<open>
  C7 as stated fails. With another preprocessor a batch whose index column \<open>[0]\<close> does
  not match the two agents of \<open>record_len\<close> is returned as it is. And with
  \<^verbatim>\<open>SpVoxelPreprocessor\<close>, three agents of which the middle one has no voxel give the
  column \<open>[0, 2]\<close>: two groups, largest entry plus one equal to three, and the batch
  passes.
\<close>

theorem collate_batch_train_check_counterexample:
  "batch_index_mismatch demo_arith (PyDict [(KStr ''voxel_coords'', PyArray [voxel_row 0])]) [2] =
     Inr True \<and>
   collate_batch_train demo_arith demo_ext demo_pp_dataset
     [demo_sample 2 [demo_voxels, PyArray []]] =
     Inr (PyDict [(KStr ''ego'', PyDict (demo_collated 2 [voxel_row 0]))]) \<and>
   collate_batch_train demo_arith demo_ext (demo_dataset 1 1)
     [demo_sample 3 [demo_voxels, PyArray [], demo_voxels]] =
     Inr (PyDict [(KStr ''ego'', PyDict (demo_collated 3 [voxel_row 0, voxel_row 2]))])"
proof -
  have 1: "batch_index_mismatch demo_arith
             (PyDict [(KStr ''voxel_coords'', PyArray [voxel_row 0])]) [2] = Inr True"
    by (simp add: batch_index_mismatch_def voxel_row_def py_index_def int32_def)
  have 2: "collate_batch_train demo_arith demo_ext demo_pp_dataset
     [demo_sample 2 [demo_voxels, PyArray []]] =
     Inr (PyDict [(KStr ''ego'', PyDict (demo_collated 2 [voxel_row 0]))])"
    by (simp add: collate_batch_train_def demo_assemble demo_flags)
  have 3: "collate_batch_train demo_arith demo_ext (demo_dataset 1 1)
     [demo_sample 3 [demo_voxels, PyArray [], demo_voxels]] =
     Inr (PyDict [(KStr ''ego'', PyDict (demo_collated 3 [voxel_row 0, voxel_row 2]))])"
    by (simp add: collate_batch_train_def demo_assemble demo_flags)
       (simp add: demo_collated_def batch_index_mismatch_def voxel_row_def py_index_def int32_def)
  from 1 2 3 show ?thesis by simp
qed

lemma collate_batch_train_result:
  "collate_batch_train ar ext st batch = Inr out \<Longrightarrow>
   out = PyNone \<or> (\<exists>ego. out = PyDict [(KStr ''ego'', PyDict ego)])"
  by (auto simp: collate_batch_train_def ebind_Inr_iff split: if_splits)

lemma collate_batch_test_attach:
  assumes tr: "collate_batch_train ar ext st [b] = Inr (PyDict [(KStr ''ego'', PyDict ego)])"
    and be: "subscript b (KStr ''ego'') = Inr be"
    and ab: "subscript be (KStr ''anchor_box'') = Inr ab"
    and si: "subscript be (KStr ''sample_idx'') = Inr si"
    and cl: "subscript be (KStr ''cav_id_list'') = Inr cl"
  shows "\<exists>ego'. collate_batch_test ar ext st [b] = Inr (PyDict [(KStr ''ego'', PyDict ego')]) \<and>
           dict_get ego' (KStr ''transformation_matrix'') = Inr (eye4 ar) \<and>
           dict_get ego' (KStr ''transformation_matrix_clean'') = Inr (eye4 ar) \<and>
           dict_get ego' (KStr ''sample_idx'') = Inr si \<and>
           dict_get ego' (KStr ''cav_id_list'') = Inr cl \<and>
           (ab \<noteq> PyNone \<longrightarrow> dict_get ego' (KStr ''anchor_box'') = Inr ab) \<and>
           (\<forall>key. key \<notin> test_extras \<longrightarrow> dict_get ego' key = dict_get ego key)"
proof -
  define e1 where "e1 = (if ab \<noteq> PyNone then dict_set ego (KStr ''anchor_box'') ab else ego)"
  define ego' where
    "ego' = dict_set (dict_set (dict_set (dict_set e1 (KStr ''transformation_matrix'') (eye4 ar))
               (KStr ''transformation_matrix_clean'') (eye4 ar))
               (KStr ''sample_idx'') si) (KStr ''cav_id_list'') cl"
  have t: "collate_batch_test ar ext st [b] = Inr (PyDict [(KStr ''ego'', PyDict ego')])"
    by (simp add: collate_batch_test_def tr py_index_def be ab si cl ego'_def e1_def)
  show ?thesis
    by (rule exI [of _ ego'])
       (simp add: t, simp add: ego'_def e1_def dict_get_dict_set test_extras_def)
qed

text \<open>
  C8, as the code has it. A batch of more than one sample fails the assertion. For a
  batch of one sample the result of the training-mode collation is passed on when it is
  an exception or \<^verbatim>\<open>None\<close>; otherwise the collated entries are kept and
  \<^verbatim>\<open>transformation_matrix\<close> and \<^verbatim>\<open>transformation_matrix_clean\<close> (the 4 by 4
  identity), \<^verbatim>\<open>sample_idx\<close> and \<^verbatim>\<open>cav_id_list\<close> of the sample are added, and its
  \<^verbatim>\<open>anchor_box\<close> when it is not \<^verbatim>\<open>None\<close>.
\<close>

theorem collate_batch_test_spec:
  "(1 < length batch \<longrightarrow> collate_batch_test ar ext st batch = Inl AssertionError) \<and>
   (collate_batch_train ar ext st [b] = Inl err \<longrightarrow> collate_batch_test ar ext st [b] = Inl err) \<and>
   (collate_batch_train ar ext st [b] = Inr PyNone \<longrightarrow>
      collate_batch_test ar ext st [b] = Inr PyNone) \<and>
   (collate_batch_train ar ext st [b] = Inr out \<and> out \<noteq> PyNone \<and>
    subscript b (KStr ''ego'') = Inr be \<and> subscript be (KStr ''anchor_box'') = Inr ab \<and>
    subscript be (KStr ''sample_idx'') = Inr si \<and>
    subscript be (KStr ''cav_id_list'') = Inr cl \<longrightarrow>
      (\<exists>ego ego'. out = PyDict [(KStr ''ego'', PyDict ego)] \<and>
           collate_batch_test ar ext st [b] = Inr (PyDict [(KStr ''ego'', PyDict ego')]) \<and>
           dict_get ego' (KStr ''transformation_matrix'') = Inr (eye4 ar) \<and>
           dict_get ego' (KStr ''transformation_matrix_clean'') = Inr (eye4 ar) \<and>
           dict_get ego' (KStr ''sample_idx'') = Inr si \<and>
           dict_get ego' (KStr ''cav_id_list'') = Inr cl \<and>
           (ab \<noteq> PyNone \<longrightarrow> dict_get ego' (KStr ''anchor_box'') = Inr ab) \<and>
           (\<forall>key. key \<notin> test_extras \<longrightarrow> dict_get ego' key = dict_get ego key)))"
proof (intro conjI impI)
  assume "1 < length batch"
  then show "collate_batch_test ar ext st batch = Inl AssertionError"
    by (simp add: collate_batch_test_def)
next
  assume "collate_batch_train ar ext st [b] = Inl err"
  then show "collate_batch_test ar ext st [b] = Inl err"
    by (simp add: collate_batch_test_def)
next
  assume "collate_batch_train ar ext st [b] = Inr PyNone"
  then show "collate_batch_test ar ext st [b] = Inr PyNone"
    by (simp add: collate_batch_test_def)
next
  assume h: "collate_batch_train ar ext st [b] = Inr out \<and> out \<noteq> PyNone \<and>
    subscript b (KStr ''ego'') = Inr be \<and> subscript be (KStr ''anchor_box'') = Inr ab \<and>
    subscript be (KStr ''sample_idx'') = Inr si \<and>
    subscript be (KStr ''cav_id_list'') = Inr cl"
  with collate_batch_train_result [of ar ext st "[b]" out] obtain ego where
    ego: "out = PyDict [(KStr ''ego'', PyDict ego)]" by blast
  from h ego have tr: "collate_batch_train ar ext st [b] = Inr (PyDict [(KStr ''ego'', PyDict ego)])"
    by simp
  from collate_batch_test_attach [OF tr] h ego
  show "\<exists>ego ego'. out = PyDict [(KStr ''ego'', PyDict ego)] \<and>
           collate_batch_test ar ext st [b] = Inr (PyDict [(KStr ''ego'', PyDict ego')]) \<and>
           dict_get ego' (KStr ''transformation_matrix'') = Inr (eye4 ar) \<and>
           dict_get ego' (KStr ''transformation_matrix_clean'') = Inr (eye4 ar) \<and>
           dict_get ego' (KStr ''sample_idx'') = Inr si \<and>
           dict_get ego' (KStr ''cav_id_list'') = Inr cl \<and>
           (ab \<noteq> PyNone \<longrightarrow> dict_get ego' (KStr ''anchor_box'') = Inr ab) \<and>
           (\<forall>key. key \<notin> test_extras \<longrightarrow> dict_get ego' key = dict_get ego key)"
    by blast
qed


text \<open>The witness: a batch of two samples, a sample that the training-mode collation
  turns down, and one that it collates.\<close>

theorem collate_batch_test_spec_witness:
  "collate_batch_test demo_arith demo_ext (demo_dataset 1 1)
     [demo_sample 2 [demo_voxels, demo_voxels], demo_sample 2 [demo_voxels, demo_voxels]] =
     Inl AssertionError \<and>
   collate_batch_test demo_arith demo_ext (demo_dataset 1 1)
     [demo_sample 2 [demo_voxels, PyArray []]] = Inr PyNone \<and>
   collate_batch_test demo_arith demo_ext (demo_dataset 1 1)
     [demo_sample 2 [demo_voxels, demo_voxels]] =
     Inr (PyDict [(KStr ''ego'',
        PyDict (demo_collated 2 [voxel_row 0, voxel_row 1] @
                [(KStr ''transformation_matrix'', eye4 demo_arith),
                 (KStr ''transformation_matrix_clean'', eye4 demo_arith),
                 (KStr ''sample_idx'', PyInt 3),
                 (KStr ''cav_id_list'', PyList [PyStr ''a'', PyStr ''b''])]))])"
proof -
  let ?s = "demo_sample 2 [demo_voxels, demo_voxels]"
  let ?short = "demo_sample 2 [demo_voxels, PyArray []]"
  let ?be = "PyDict [(KStr ''object_bbx_center'', PyArray [demo_box 1]),
               (KStr ''object_bbx_mask'', PyArray [PyNum 1]),
               (KStr ''object_ids'', PyList [PyInt 7]),
               (KStr ''anchor_box'', PyNone),
               (KStr ''processed_lidar'',
                PyDict [(KStr ''voxel_coords'', PyList [demo_voxels, demo_voxels])]),
               (KStr ''label_dict'', PyDict []),
               (KStr ''cav_num'', PyInt 2),
               (KStr ''pairwise_t_matrix'', PyArray []),
               (KStr ''lidar_poses_clean'', PyArray [PyArray (map PyNum [0, 0, 0, 0, 0, 0])]),
               (KStr ''lidar_poses'', PyArray [PyArray (map PyNum [0, 0, 0, 0, 0, 0])]),
               (KStr ''sample_idx'', PyInt 3),
               (KStr ''cav_id_list'', PyList [PyStr ''a'', PyStr ''b''])] :: real pyval"
  have l: "1 < length [?s, ?s]" by simp
  from collate_batch_test_spec [of "[?s, ?s]" demo_arith demo_ext "demo_dataset 1 1"] l
  have 1: "collate_batch_test demo_arith demo_ext (demo_dataset 1 1) [?s, ?s] =
             Inl AssertionError" by blast
  from collate_batch_test_spec [of _ demo_arith demo_ext "demo_dataset 1 1" ?short]
    demo_train_short
  have 2: "collate_batch_test demo_arith demo_ext (demo_dataset 1 1) [?short] = Inr PyNone"
    by blast
  have be: "subscript ?s (KStr ''ego'') = Inr ?be" by (simp add: demo_sample_def)
  have ab: "subscript ?be (KStr ''anchor_box'') = Inr PyNone"
    and si: "subscript ?be (KStr ''sample_idx'') = Inr (PyInt 3)"
    and cl: "subscript ?be (KStr ''cav_id_list'') = Inr (PyList [PyStr ''a'', PyStr ''b''])"
    by simp_all
  have ne: "PyDict [(KStr ''ego'', PyDict (demo_collated 2 [voxel_row 0, voxel_row 1]))] \<noteq>
              (PyNone :: real pyval)" by simp
  from collate_batch_test_spec [of _ demo_arith demo_ext "demo_dataset 1 1" ?s _
         "PyDict [(KStr ''ego'', PyDict (demo_collated 2 [voxel_row 0, voxel_row 1]))]"
         ?be PyNone "PyInt 3" "PyList [PyStr ''a'', PyStr ''b'']"]
    demo_train_full ne be ab si cl
  have 3: "\<exists>ego'. collate_batch_test demo_arith demo_ext (demo_dataset 1 1) [?s] =
             Inr (PyDict [(KStr ''ego'', PyDict ego')])" by blast
  have ev: "collate_batch_test demo_arith demo_ext (demo_dataset 1 1) [?s] =
     Inr (PyDict [(KStr ''ego'',
        PyDict (demo_collated 2 [voxel_row 0, voxel_row 1] @
                [(KStr ''transformation_matrix'', eye4 demo_arith),
                 (KStr ''transformation_matrix_clean'', eye4 demo_arith),
                 (KStr ''sample_idx'', PyInt 3),
                 (KStr ''cav_id_list'', PyList [PyStr ''a'', PyStr ''b''])]))])"
    by (simp add: collate_batch_test_def demo_train_full py_index_def)
       (simp add: demo_sample_def demo_collated_def)
  from 1 2 3 ev show ?thesis by simp
qed

text \<open>
  C8 as stated fails. The empty batch passes the assertion \<^verbatim>\<open>len(batch) <= 1\<close> and
  ends in the exception that the collation of nothing raises; and a batch of one sample
  that the training-mode collation turns down comes back as \<^verbatim>\<open>None\<close>, with nothing
  attached.
\<close>

theorem collate_batch_test_counterexample:
  "collate_batch_test demo_arith demo_ext (demo_dataset 1 1) [] = Inl KeyError \<and>
   collate_batch_train demo_arith demo_ext (demo_dataset 1 1)
     [demo_sample 2 [demo_voxels, PyArray []]] = Inr PyNone \<and>
   collate_batch_test demo_arith demo_ext (demo_dataset 1 1)
     [demo_sample 2 [demo_voxels, PyArray []]] = Inr PyNone"
proof -
  have 1: "collate_batch_test demo_arith demo_ext (demo_dataset 1 1) [] = Inl KeyError"
    by (simp add: collate_batch_test_def collate_batch_train_def assemble_batch_def
        merge_features_to_dict_def demo_ext_def demo_pre_collate_batch_def
        no_samples_def Let_def demo_flags)
  have 2: "collate_batch_test demo_arith demo_ext (demo_dataset 1 1)
     [demo_sample 2 [demo_voxels, PyArray []]] = Inr PyNone"
    by (simp add: collate_batch_test_def demo_train_short)
  from 1 2 demo_train_short show ?thesis by simp
qed



end

